theory Spec2Isabelle
  imports Main
begin

section \<open>Values shared by the build and the inference side\<close>

text \<open>
  The failures of \<^verbatim>\<open>csrc/engine.cpp\<close>. Only \<^verbatim>\<open>vector::at\<close> raises a C++
  exception (\<open>std_out_of_range\<close>). The other three are undefined behaviour of the
  source (a call through a null pointer, \<^verbatim>\<open>vector::operator[]\<close> past the end, an
  integer division that has no result); the model stops there with an error value.
\<close>

datatype error =
    NullDereference
  | VectorIndexOutOfBounds
  | IntegerDivisionUndefined
  | std_out_of_range

text \<open>
  \<^verbatim>\<open>nvinfer1::Dims\<close>: the rank and the array \<^verbatim>\<open>int32_t d[MAX_DIMS]\<close>. The list
  holds the slots of the array; a slot the list does not give reads as 0.
\<close>

record Dims =
  nbDims :: int
  d :: "int list"

definition d_at :: "Dims \<Rightarrow> nat \<Rightarrow> int" where
  "d_at dims k = (if k < length (d dims) then d dims ! k else 0)"

definition Dims4 :: "int \<Rightarrow> int \<Rightarrow> int \<Rightarrow> int \<Rightarrow> Dims" where
  "Dims4 d0 d1 d2 d3 = \<lparr>nbDims = 4, d = [d0, d1, d2, d3, 0, 0, 0, 0]\<rparr>"

definition invalid_Dims :: Dims where
  "invalid_Dims = \<lparr>nbDims = - 1, d = [0, 0, 0, 0, 0, 0, 0, 0]\<rparr>"

text \<open>
  Division of two \<^verbatim>\<open>int32_t\<close> values as C++ defines it: the quotient is truncated
  towards zero; a zero divisor and \<^verbatim>\<open>INT_MIN / -1\<close> have no result.
\<close>

definition INT_MIN :: int where
  "INT_MIN = - (2 ^ 31)"

definition trunc_div :: "int \<Rightarrow> int \<Rightarrow> int" where
  "trunc_div a b =
     (if (a < 0) = (b < 0) then \<bar>a\<bar> div \<bar>b\<bar> else - (\<bar>a\<bar> div \<bar>b\<bar>))"

definition int_div :: "int \<Rightarrow> int \<Rightarrow> error + int" where
  "int_div a b =
     (if b = 0 \<or> (a = INT_MIN \<and> b = - 1) then Inl IntegerDivisionUndefined
      else Inr (trunc_div a b))"

section \<open>The inference side: a deserialized engine\<close>

type_synonym ptr = nat
type_synonym cudaStream_t = nat

text \<open>
  What the code reads of \<^verbatim>\<open>nvinfer1::ICudaEngine\<close>: the names of the I/O tensors in
  index order and the declared shape of each name.
\<close>

record ICudaEngine =
  io_tensor_names :: "string list"
  tensor_shapes :: "(string \<times> Dims) list"

definition getNbIOTensors :: "ICudaEngine \<Rightarrow> nat" where
  "getNbIOTensors e = length (io_tensor_names e)"

definition getIOTensorName :: "ICudaEngine \<Rightarrow> nat \<Rightarrow> string option" where
  "getIOTensorName e i =
     (if i < length (io_tensor_names e) then Some (io_tensor_names e ! i) else None)"

definition getTensorShape :: "ICudaEngine \<Rightarrow> string option \<Rightarrow> Dims" where
  "getTensorShape e name =
     (case name of
        None \<Rightarrow> invalid_Dims
      | Some n \<Rightarrow> (case map_of (tensor_shapes e) n of None \<Rightarrow> invalid_Dims | Some s \<Rightarrow> s))"

text \<open>
  \<^verbatim>\<open>nvinfer1::IExecutionContext\<close>: the address bound to each tensor name (the
  latest binding of a name comes first).
\<close>

record IExecutionContext =
  tensor_address :: "(string \<times> ptr) list"

text \<open>The calls on the execution context and on the CUDA runtime, in program order.\<close>

datatype device_call =
    CreateExecutionContext
  | SetOptimizationProfileAsync int cudaStream_t
  | CudaStreamCreate cudaStream_t
  | SetTensorAddress string ptr
  | EnqueueV3 cudaStream_t
  | CudaStreamSynchronize cudaStream_t

text \<open>
  The members of \<^verbatim>\<open>odtk::Engine\<close> that the inference side uses: \<^verbatim>\<open>_engine\<close>,
  \<^verbatim>\<open>_context\<close> (both \<^verbatim>\<open>unique_ptr\<close>, \<open>None\<close> when null) and \<^verbatim>\<open>_stream\<close>,
  with the log of the calls made so far.
\<close>

record Engine =
  m_engine :: "ICudaEngine option"
  m_context :: "IExecutionContext option"
  m_stream :: cudaStream_t
  device_calls :: "device_call list"

text \<open>
  \<^verbatim>\<open>Engine::_load\<close>: the file's bytes go to \<^verbatim>\<open>deserializeCudaEngine\<close>, whose result
  (\<open>None\<close> for a null pointer) is the parameter \<open>deserialized\<close>.
\<close>

definition Engine_load :: "ICudaEngine option \<Rightarrow> Engine \<Rightarrow> Engine" where
  "Engine_load deserialized eng = eng\<lparr>m_engine := deserialized\<rparr>"

text \<open>
  \<^verbatim>\<open>Engine::_prepare\<close>. \<open>created_context\<close> is what \<^verbatim>\<open>createExecutionContext\<close>
  returns and \<open>created_stream\<close> the handle that \<^verbatim>\<open>cudaStreamCreate\<close> stores in
  \<^verbatim>\<open>_stream\<close>. The three statements run in the order of the source.
\<close>

definition Engine_prepare ::
  "IExecutionContext option \<Rightarrow> cudaStream_t \<Rightarrow> Engine \<Rightarrow> error + Engine" where
  "Engine_prepare created_context created_stream eng =
     (case m_engine eng of
        None \<Rightarrow> Inl NullDereference
      | Some e \<Rightarrow>
          (let eng1 = eng\<lparr>m_context := created_context,
                           device_calls := device_calls eng @ [CreateExecutionContext]\<rparr>
           in case m_context eng1 of
                None \<Rightarrow> Inl NullDereference
              | Some c \<Rightarrow>
                  (let eng2 = eng1\<lparr>device_calls := device_calls eng1 @
                                       [SetOptimizationProfileAsync 0 (m_stream eng1)]\<rparr>;
                       eng3 = eng2\<lparr>m_stream := created_stream,
                                     device_calls := device_calls eng2 @
                                       [CudaStreamCreate created_stream]\<rparr>
                   in Inr eng3)))"

text \<open>
  The constructor \<^verbatim>\<open>Engine(engine_path, verbose)\<close>: \<^verbatim>\<open>_load\<close>, then
  \<^verbatim>\<open>_prepare\<close>. \<open>initial\<close> is the object as its member initializers leave it
  (\<^verbatim>\<open>engine.h\<close> is not part of the sources, so the initial value of
  \<^verbatim>\<open>_stream\<close> is a parameter).
\<close>

definition Engine_from_file ::
  "ICudaEngine option \<Rightarrow> IExecutionContext option \<Rightarrow> cudaStream_t \<Rightarrow> Engine \<Rightarrow> error + Engine" where
  "Engine_from_file deserialized created_context created_stream initial =
     Engine_prepare created_context created_stream (Engine_load deserialized initial)"

definition setTensorAddress :: "string \<Rightarrow> ptr \<Rightarrow> Engine \<Rightarrow> error + Engine" where
  "setTensorAddress name addr eng =
     (case m_context eng of
        None \<Rightarrow> Inl NullDereference
      | Some c \<Rightarrow>
          Inr (eng\<lparr>m_context := Some (c\<lparr>tensor_address := (name, addr) # tensor_address c\<rparr>),
                   device_calls := device_calls eng @ [SetTensorAddress name addr]\<rparr>))"

text \<open>
  The loop of \<^verbatim>\<open>Engine::infer\<close> from index \<open>i\<close> to the bound \<open>e\<close>. The result is
  the error raised, if any, with the object as the loop leaves it. The argument
  \<^verbatim>\<open>buffers.at(i)\<close> is evaluated before the call through \<^verbatim>\<open>_context\<close>.
\<close>

function infer_loop :: "ICudaEngine \<Rightarrow> ptr list \<Rightarrow> nat \<Rightarrow> nat \<Rightarrow> Engine \<Rightarrow> error option \<times> Engine" where
  "infer_loop eg buffers i e eng =
     (if i < e then
        (case getIOTensorName eg i of
           None \<Rightarrow> (Some NullDereference, eng)
         | Some name \<Rightarrow>
             (if i < length buffers then
                (case setTensorAddress name (buffers ! i) eng of
                   Inl err \<Rightarrow> (Some err, eng)
                 | Inr eng' \<Rightarrow> infer_loop eg buffers (Suc i) e eng')
              else (Some std_out_of_range, eng)))
      else (None, eng))"
  by pat_completeness auto
termination
  by (relation "measure (\<lambda>(eg, buffers, i, e, eng). e - i)") auto

declare infer_loop.simps [simp del]

text \<open>\<^verbatim>\<open>Engine::infer(buffers, batch)\<close>.\<close>

definition Engine_infer :: "Engine \<Rightarrow> ptr list \<Rightarrow> int \<Rightarrow> error option \<times> Engine" where
  "Engine_infer eng buffers batch =
     (case m_engine eng of
        None \<Rightarrow> (Some NullDereference, eng)
      | Some eg \<Rightarrow>
          (case infer_loop eg buffers 0 (getNbIOTensors eg) eng of
             (Some err, eng') \<Rightarrow> (Some err, eng')
           | (None, eng') \<Rightarrow>
               (case m_context eng' of
                  None \<Rightarrow> (Some NullDereference, eng')
                | Some c \<Rightarrow>
                    (None, eng'\<lparr>device_calls := device_calls eng' @
                                   [EnqueueV3 (m_stream eng'),
                                    CudaStreamSynchronize (m_stream eng')]\<rparr>))))"

text \<open>\<^verbatim>\<open>Engine::getInputSize\<close> and \<^verbatim>\<open>Engine::getMaxDetections\<close>.\<close>

definition Engine_getInputSize :: "Engine \<Rightarrow> error + int list" where
  "Engine_getInputSize eng =
     (case m_engine eng of
        None \<Rightarrow> Inl NullDereference
      | Some eg \<Rightarrow>
          (let dims = getTensorShape eg (getIOTensorName eg 0)
           in Inr [d_at dims 2, d_at dims 3]))"

definition Engine_getMaxDetections :: "Engine \<Rightarrow> error + int" where
  "Engine_getMaxDetections eng =
     (case m_engine eng of
        None \<Rightarrow> Inl NullDereference
      | Some eg \<Rightarrow>
          (let dims = getTensorShape eg (getIOTensorName eg 1)
           in Inr (d_at dims 1)))"

definition Engine_getMaxBatchSize :: "Engine \<Rightarrow> int" where
  "Engine_getMaxBatchSize eng = 1"

definition Engine_getStride :: "Engine \<Rightarrow> int" where
  "Engine_getStride eng = 1"

section \<open>The build side: the network under construction\<close>

text \<open>
  A tensor of the network: one the ONNX parser created (numbered by the parser), or
  output \<open>k\<close> of the \<open>l\<close>-th layer that the constructor adds.
\<close>

datatype tensor = ParsedTensor nat | LayerOutput nat nat

text \<open>
  The four plugins with their constructor arguments. The thresholds and anchors are
  \<^verbatim>\<open>float\<close> values that the constructor only passes on, so their type is the
  parameter \<open>'f\<close>.
\<close>

datatype 'f IPluginV2 =
    DecodePlugin 'f int "'f list" int
  | DecodeRotatePlugin 'f int "'f list" int
  | NMSPlugin 'f int
  | NMSRotatePlugin 'f int

datatype 'f ILayer =
    PluginV2Layer "tensor list" "'f IPluginV2"
  | ConcatenationLayer "tensor list"

text \<open>
  Modelled from the spec: the plugin classes (\<^verbatim>\<open>plugins/DecodePlugin.h\<close>,
  \<^verbatim>\<open>plugins/NMSPlugin.h\<close> and their rotated variants) are not part of the sources.
  The spec gives the decode operator three outputs (scores, boxes, classes) and the
  NMS operator exactly three tensors.
\<close>

definition plugin_getNbOutputs :: "'f IPluginV2 \<Rightarrow> nat" where
  "plugin_getNbOutputs p = 3"

fun layer_getNbOutputs :: "'f ILayer \<Rightarrow> nat" where
  "layer_getNbOutputs (PluginV2Layer ins p) = plugin_getNbOutputs p"
| "layer_getNbOutputs (ConcatenationLayer ins) = 1"

text \<open>
  \<^verbatim>\<open>nvinfer1::INetworkDefinition\<close>: the ordered inputs and outputs, the layers the
  constructor has added (in order of addition), and the dimensions and name of
  every tensor.
\<close>

record 'f INetworkDefinition =
  net_inputs :: "tensor list"
  net_outputs :: "tensor list"
  net_layers :: "'f ILayer list"
  tensor_dims :: "tensor \<Rightarrow> Dims"
  tensor_name :: "tensor \<Rightarrow> string"

text \<open>
  What \<^verbatim>\<open>parser->parse(onnx_model, onnx_size)\<close> leaves in the network. The parser
  is an external collaborator, so its result is an input of the model.
\<close>

record onnx_graph =
  onnx_inputs :: "nat list"
  onnx_outputs :: "nat list"
  onnx_dims :: "nat \<Rightarrow> Dims"
  onnx_name :: "nat \<Rightarrow> string"

definition parsed_network :: "onnx_graph \<Rightarrow> 'f INetworkDefinition" where
  "parsed_network g =
     \<lparr>net_inputs = map ParsedTensor (onnx_inputs g),
      net_outputs = map ParsedTensor (onnx_outputs g),
      net_layers = [],
      tensor_dims = (\<lambda>t. case t of ParsedTensor n \<Rightarrow> onnx_dims g n
                               | LayerOutput l k \<Rightarrow> invalid_Dims),
      tensor_name = (\<lambda>t. case t of ParsedTensor n \<Rightarrow> onnx_name g n
                               | LayerOutput l k \<Rightarrow> [])\<rparr>"

definition getInput :: "'f INetworkDefinition \<Rightarrow> nat \<Rightarrow> tensor option" where
  "getInput net i = (if i < length (net_inputs net) then Some (net_inputs net ! i) else None)"

definition getNbOutputs :: "'f INetworkDefinition \<Rightarrow> nat" where
  "getNbOutputs net = length (net_outputs net)"

definition getOutput :: "'f INetworkDefinition \<Rightarrow> nat \<Rightarrow> tensor option" where
  "getOutput net i = (if i < length (net_outputs net) then Some (net_outputs net ! i) else None)"

text \<open>
  A tensor is among the outputs at most once: unmarking removes it, and marking a
  tensor that is an output already changes nothing.
\<close>

definition unmarkOutput :: "tensor \<Rightarrow> 'f INetworkDefinition \<Rightarrow> 'f INetworkDefinition" where
  "unmarkOutput t net = net\<lparr>net_outputs := removeAll t (net_outputs net)\<rparr>"

definition markOutput :: "tensor \<Rightarrow> 'f INetworkDefinition \<Rightarrow> 'f INetworkDefinition" where
  "markOutput t net =
     net\<lparr>net_outputs := (if t \<in> set (net_outputs net) then net_outputs net
                          else net_outputs net @ [t])\<rparr>"

definition setName :: "tensor \<Rightarrow> string \<Rightarrow> 'f INetworkDefinition \<Rightarrow> 'f INetworkDefinition" where
  "setName t name net = net\<lparr>tensor_name := (tensor_name net)(t := name)\<rparr>"

text \<open>A new layer is returned as its position in \<open>net_layers\<close>.\<close>

definition addPluginV2 ::
  "tensor list \<Rightarrow> 'f IPluginV2 \<Rightarrow> 'f INetworkDefinition \<Rightarrow> nat \<times> 'f INetworkDefinition" where
  "addPluginV2 ins plugin net =
     (length (net_layers net), net\<lparr>net_layers := net_layers net @ [PluginV2Layer ins plugin]\<rparr>)"

text \<open>\<^verbatim>\<open>addConcatenation\<close> returns a null pointer when it is given no input.\<close>

definition addConcatenation ::
  "tensor list \<Rightarrow> 'f INetworkDefinition \<Rightarrow> (nat \<times> 'f INetworkDefinition) option" where
  "addConcatenation ins net =
     (if ins = [] then None
      else Some (length (net_layers net),
                 net\<lparr>net_layers := net_layers net @ [ConcatenationLayer ins]\<rparr>))"

definition layer_getOutput :: "'f INetworkDefinition \<Rightarrow> nat \<Rightarrow> nat \<Rightarrow> tensor option" where
  "layer_getOutput net l k =
     (if l < length (net_layers net) \<and> k < layer_getNbOutputs (net_layers net ! l)
      then Some (LayerOutput l k) else None)"

subsection \<open>The builder configuration\<close>

datatype BuilderFlag = kFP16 | kINT8

datatype OptProfileSelector = kMIN | kOPT | kMAX

text \<open>
  \<^verbatim>\<open>IOptimizationProfile\<close>: the dimensions set for each input name and selector (the
  latest setting comes first).
\<close>

type_synonym IOptimizationProfile = "((string \<times> OptProfileSelector) \<times> Dims) list"

definition createOptimizationProfile :: IOptimizationProfile where
  "createOptimizationProfile = []"

definition setDimensions ::
  "string \<Rightarrow> OptProfileSelector \<Rightarrow> Dims \<Rightarrow> IOptimizationProfile \<Rightarrow> IOptimizationProfile" where
  "setDimensions name sel dims prof = ((name, sel), dims) # prof"

definition getDimensions ::
  "IOptimizationProfile \<Rightarrow> string \<Rightarrow> OptProfileSelector \<Rightarrow> Dims" where
  "getDimensions prof name sel =
     (case map_of prof (name, sel) of None \<Rightarrow> invalid_Dims | Some dims \<Rightarrow> dims)"

text \<open>The arguments that the constructors of \<^verbatim>\<open>calibrator.h\<close> receive.\<close>

record ImageStream =
  stream_batch :: int
  stream_dims :: Dims
  stream_images :: "string list"

record Int8EntropyCalibrator =
  calib_stream :: ImageStream
  calib_model_name :: string
  calib_table :: string

record IBuilderConfig =
  flags :: "BuilderFlag set"
  memory_pool_limit :: nat
  optimization_profiles :: "IOptimizationProfile list"
  calibration_profile :: "IOptimizationProfile option"
  int8_calibrator :: "Int8EntropyCalibrator option"

subsection \<open>The constructor that builds an engine\<close>

text \<open>
  The arguments of \<^verbatim>\<open>Engine::Engine(onnx_model, onnx_size, ...)\<close>. The model bytes
  enter through \<open>parsed\<close>, the parser's result on them; \<open>profile_isValid\<close> is the
  answer of \<^verbatim>\<open>IOptimizationProfile::isValid\<close>, which TensorRT computes.
\<close>

record 'f build_args =
  parsed :: onnx_graph
  dynamic_batch_opts :: "int list"
  precision :: string
  score_thresh :: 'f
  top_n :: int
  anchors :: "'f list list"
  rotated :: bool
  nms_thresh :: 'f
  detections_per_im :: int
  calibration_images :: "string list"
  model_name :: string
  calibration_table :: string
  verbose :: bool
  workspace_size :: nat
  profile_isValid :: "IOptimizationProfile \<Rightarrow> bool"

text \<open>
  The console lines, the calls that change the network and the call of the external
  compiler, in program order. (The calls on the builder configuration show in
  \<open>IBuilderConfig\<close>.)
\<close>

datatype 'f build_call =
    Cout string
  | AddPluginV2 "tensor list" "'f IPluginV2"
  | UnmarkOutput tensor
  | AddConcatenation "tensor list"
  | MarkOutput tensor
  | SetName tensor string
  | BuildSerializedNetwork

text \<open>The objects and local variables of the constructor.\<close>

record 'f build_frame =
  network :: "'f INetworkDefinition"
  builderConfig :: IBuilderConfig
  inputDims :: Dims
  profile :: IOptimizationProfile
  calib :: "Int8EntropyCalibrator option"
  scores :: "tensor list"
  boxes :: "tensor list"
  classes :: "tensor list"
  concat_v :: "tensor list"
  calls :: "'f build_call list"

text \<open>Lines 98 to 106: the precision flags and the workspace limit.\<close>

definition create_builder_config :: "'f build_args \<Rightarrow> IBuilderConfig" where
  "create_builder_config a =
     (let fp16 = (precision a = ''FP16'');
          int8 = (precision a = ''INT8'')
      in \<lparr>flags = (if fp16 \<or> int8 then {kFP16} else {}),
          memory_pool_limit = workspace_size a,
          optimization_profiles = [],
          calibration_profile = None,
          int8_calibrator = None\<rparr>)"

text \<open>
  Lines 108 to 128: the model is parsed and the optimization profile is set up from
  input 0 and the three batch sizes, read with \<^verbatim>\<open>operator[]\<close>.
\<close>

definition configure_profile :: "'f build_args \<Rightarrow> error + 'f build_frame" where
  "configure_profile a =
     (let cfg = create_builder_config a;
          net = parsed_network (parsed a);
          out = [Cout (''Building '' @ precision a @ '' core model...'')]
      in case getInput net 0 of
           None \<Rightarrow> Inl NullDereference
         | Some input \<Rightarrow>
             (let dims = tensor_dims net input;
                  inputName = tensor_name net input
              in if length (dynamic_batch_opts a) < 3 then Inl VectorIndexOutOfBounds
                 else
                   (let profileDimsmin = Dims4 (dynamic_batch_opts a ! 0)
                          (d_at dims 1) (d_at dims 2) (d_at dims 3);
                        profileDimsopt = Dims4 (dynamic_batch_opts a ! 1)
                          (d_at dims 1) (d_at dims 2) (d_at dims 3);
                        profileDimsmax = Dims4 (dynamic_batch_opts a ! 2)
                          (d_at dims 1) (d_at dims 2) (d_at dims 3);
                        prof = setDimensions inputName kMAX profileDimsmax
                                 (setDimensions inputName kOPT profileDimsopt
                                   (setDimensions inputName kMIN profileDimsmin
                                     createOptimizationProfile));
                        cfg' = (if profile_isValid a prof
                                then cfg\<lparr>optimization_profiles :=
                                           optimization_profiles cfg @ [prof]\<rparr>
                                else cfg)
                    in Inr \<lparr>network = net, builderConfig = cfg', inputDims = dims,
                            profile = prof, calib = None, scores = [], boxes = [],
                            classes = [], concat_v = [], calls = out\<rparr>)))"

text \<open>Lines 130 to 139: the INT8 flag, the calibration profile and the calibrator.\<close>

definition configure_calibration :: "'f build_args \<Rightarrow> 'f build_frame \<Rightarrow> error + 'f build_frame" where
  "configure_calibration a fr =
     (if precision a = ''INT8'' then
        (if length (dynamic_batch_opts a) < 2 then Inl VectorIndexOutOfBounds
         else
           (let stream = \<lparr>stream_batch = dynamic_batch_opts a ! 1,
                          stream_dims = inputDims fr,
                          stream_images = calibration_images a\<rparr>;
                c = \<lparr>calib_stream = stream, calib_model_name = model_name a,
                     calib_table = calibration_table a\<rparr>
            in Inr (fr\<lparr>builderConfig := (builderConfig fr)
                          \<lparr>flags := insert kINT8 (flags (builderConfig fr)),
                           calibration_profile := Some (profile fr),
                           int8_calibrator := Some c\<rparr>,
                        calib := Some c\<rparr>)))
      else Inr fr)"

text \<open>
  The body of the loop of lines 148 to 163 for scale \<open>i\<close>; \<open>nbOutputs\<close> is the
  value read at line 146. The division of line 152 comes before \<^verbatim>\<open>anchors[i]\<close>.
  A null \<^verbatim>\<open>boxOutput\<close> makes \<^verbatim>\<open>addPluginV2\<close> return a null layer, which line 160
  dereferences, as it does a null output of the layer at the concatenation.
\<close>

definition decode_step :: "'f build_args \<Rightarrow> nat \<Rightarrow> nat \<Rightarrow> 'f build_frame \<Rightarrow> error + 'f build_frame" where
  "decode_step a nbOutputs i fr =
     (case getOutput (network fr) i of
        None \<Rightarrow> Inl NullDereference
      | Some classOutput \<Rightarrow>
          (let boxOutput = getOutput (network fr) (nbOutputs div 2 + i);
               outputDims = tensor_dims (network fr) classOutput
           in case int_div (d_at (inputDims fr) 2) (d_at outputDims 2) of
                Inl e \<Rightarrow> Inl e
              | Inr scale \<Rightarrow>
                  (if \<not> i < length (anchors a) then Inl VectorIndexOutOfBounds
                   else
                     (let decodePlugin =
                            DecodePlugin (score_thresh a) (top_n a) (anchors a ! i) scale;
                          decodeRotatePlugin =
                            DecodeRotatePlugin (score_thresh a) (top_n a) (anchors a ! i) scale
                      in case boxOutput of
                           None \<Rightarrow> Inl NullDereference
                         | Some box \<Rightarrow>
                             (let ins = [classOutput, box];
                                  plugin = (if \<not> rotated a then decodePlugin
                                            else decodeRotatePlugin);
                                  (layer, net') = addPluginV2 ins plugin (network fr)
                              in case (layer_getOutput net' layer 0,
                                       layer_getOutput net' layer 1,
                                       layer_getOutput net' layer 2) of
                                   (Some s, Some b, Some c) \<Rightarrow>
                                     Inr (fr\<lparr>network := net',
                                              scores := scores fr @ [s],
                                              boxes := boxes fr @ [b],
                                              classes := classes fr @ [c],
                                              calls := calls fr @ [AddPluginV2 ins plugin]\<rparr>)
                                 | _ \<Rightarrow> Inl NullDereference)))))"

function decode_loop :: "'f build_args \<Rightarrow> nat \<Rightarrow> nat \<Rightarrow> 'f build_frame \<Rightarrow> error + 'f build_frame" where
  "decode_loop a nbOutputs i fr =
     (if i < nbOutputs div 2 then
        (case decode_step a nbOutputs i fr of
           Inl e \<Rightarrow> Inl e
         | Inr fr' \<Rightarrow> decode_loop a nbOutputs (Suc i) fr')
      else Inr fr)"
  by pat_completeness auto
termination
  by (relation "measure (\<lambda>(a, nbOutputs, i, fr). nbOutputs div 2 - i)") auto

declare decode_loop.simps [simp del]

text \<open>Lines 166 to 169: \<open>nbOutputs\<close> times, output 0 is unmarked.\<close>

function cleanup_loop :: "nat \<Rightarrow> nat \<Rightarrow> 'f build_frame \<Rightarrow> error + 'f build_frame" where
  "cleanup_loop nbOutputs i fr =
     (if i < nbOutputs then
        (case getOutput (network fr) 0 of
           None \<Rightarrow> Inl NullDereference
         | Some output \<Rightarrow>
             cleanup_loop nbOutputs (Suc i)
               (fr\<lparr>network := unmarkOutput output (network fr),
                   calls := calls fr @ [UnmarkOutput output]\<rparr>))
      else Inr fr)"
  by pat_completeness auto
termination
  by (relation "measure (\<lambda>(nbOutputs, i, fr). nbOutputs - i)") auto

declare cleanup_loop.simps [simp del]

text \<open>
  Lines 172 to 176: one concatenation for each of \<^verbatim>\<open>scores\<close>, \<^verbatim>\<open>boxes\<close>,
  \<^verbatim>\<open>classes\<close>; the layer pointer is dereferenced as it comes.
\<close>

fun concat_loop :: "tensor list list \<Rightarrow> 'f build_frame \<Rightarrow> error + 'f build_frame" where
  "concat_loop [] fr = Inr fr"
| "concat_loop (tensors # rest) fr =
     (case addConcatenation tensors (network fr) of
        None \<Rightarrow> Inl NullDereference
      | Some (layer, net') \<Rightarrow>
          (case layer_getOutput net' layer 0 of
             None \<Rightarrow> Inl NullDereference
           | Some out \<Rightarrow>
               concat_loop rest
                 (fr\<lparr>network := net',
                     concat_v := concat_v fr @ [out],
                     calls := calls fr @ [AddConcatenation tensors]\<rparr>)))"

text \<open>
  Lines 184 to 188: every output of the NMS layer is marked, then named with
  \<^verbatim>\<open>names[i]\<close>.
\<close>

function mark_loop :: "string list \<Rightarrow> nat \<Rightarrow> nat \<Rightarrow> nat \<Rightarrow> 'f build_frame \<Rightarrow> error + 'f build_frame" where
  "mark_loop names layer n i fr =
     (if i < n then
        (case layer_getOutput (network fr) layer i of
           None \<Rightarrow> Inl NullDereference
         | Some output \<Rightarrow>
             (if \<not> i < length names then Inl VectorIndexOutOfBounds
              else
                mark_loop names layer n (Suc i)
                  (fr\<lparr>network := setName output (names ! i) (markOutput output (network fr)),
                      calls := calls fr @ [MarkOutput output, SetName output (names ! i)]\<rparr>)))
      else Inr fr)"
  by pat_completeness auto
termination
  by (relation "measure (\<lambda>(names, layer, n, i, fr). n - i)") auto

declare mark_loop.simps [simp del]

text \<open>Lines 179 to 188: the NMS plugin and the three named outputs.\<close>

definition add_nms_plugin :: "'f build_args \<Rightarrow> 'f build_frame \<Rightarrow> error + 'f build_frame" where
  "add_nms_plugin a fr =
     (let nmsPlugin = NMSPlugin (nms_thresh a) (detections_per_im a);
          nmsRotatePlugin = NMSRotatePlugin (nms_thresh a) (detections_per_im a);
          plugin = (if \<not> rotated a then nmsPlugin else nmsRotatePlugin);
          (layer, net') = addPluginV2 (concat_v fr) plugin (network fr);
          names = [''scores'', ''boxes'', ''classes'']
      in mark_loop names layer (layer_getNbOutputs (net_layers net' ! layer)) 0
           (fr\<lparr>network := net',
               calls := calls fr @ [AddPluginV2 (concat_v fr) plugin]\<rparr>))"

text \<open>Lines 191 and 192: the console line and the call of the compiler.\<close>

definition build_engine :: "'f build_frame \<Rightarrow> 'f build_frame" where
  "build_engine fr =
     fr\<lparr>calls := calls fr @
          [Cout ''Applying optimizations and building TRT CUDA engine...'',
           BuildSerializedNetwork]\<rparr>"

definition and_then :: "error + 'a \<Rightarrow> ('a \<Rightarrow> error + 'b) \<Rightarrow> error + 'b" where
  "and_then r f = (case r of Inl e \<Rightarrow> Inl e | Inr x \<Rightarrow> f x)"

text \<open>Lines 141 to 188: the rewriting of the graph.\<close>

definition rewrite_graph :: "'f build_args \<Rightarrow> 'f build_frame \<Rightarrow> error + 'f build_frame" where
  "rewrite_graph a fr =
     (let fr1 = fr\<lparr>calls := calls fr @ [Cout ''Building accelerated plugins...'']\<rparr>;
          nbOutputs = getNbOutputs (network fr1)
      in and_then (decode_loop a nbOutputs 0 fr1) (\<lambda>fr2.
         and_then (cleanup_loop nbOutputs 0 fr2) (\<lambda>fr3.
         and_then (concat_loop [scores fr3, boxes fr3, classes fr3] fr3) (\<lambda>fr4.
         add_nms_plugin a fr4))))"

text \<open>The constructor \<^verbatim>\<open>Engine::Engine(onnx_model, onnx_size, ...)\<close>.\<close>

definition Engine_build :: "'f build_args \<Rightarrow> error + 'f build_frame" where
  "Engine_build a =
     and_then (configure_profile a) (\<lambda>fr0.
     and_then (configure_calibration a fr0) (\<lambda>fr1.
     and_then (rewrite_graph a fr1) (\<lambda>fr2.
     Inr (build_engine fr2))))"

section \<open>Example inputs\<close>

text \<open>
  A deserialized detection engine with its four I/O tensors, in the Ready state
  (engine and context present, stream 7 created), and the same object in the Loaded
  state, whose stream member still holds the null handle 0.
\<close>

definition example_cuda_engine :: ICudaEngine where
  "example_cuda_engine =
     \<lparr>io_tensor_names = [''input_1'', ''scores'', ''boxes'', ''classes''],
      tensor_shapes = [(''input_1'', Dims4 (- 1) 3 512 640),
                       (''scores'', \<lparr>nbDims = 2, d = [- 1, 100, 0, 0, 0, 0, 0, 0]\<rparr>),
                       (''boxes'', \<lparr>nbDims = 2, d = [- 1, 400, 0, 0, 0, 0, 0, 0]\<rparr>),
                       (''classes'', \<lparr>nbDims = 2, d = [- 1, 100, 0, 0, 0, 0, 0, 0]\<rparr>)]\<rparr>"

definition example_ready :: Engine where
  "example_ready =
     \<lparr>m_engine = Some example_cuda_engine,
      m_context = Some \<lparr>tensor_address = []\<rparr>,
      m_stream = 7,
      device_calls = []\<rparr>"

definition example_loaded :: Engine where
  "example_loaded =
     \<lparr>m_engine = Some example_cuda_engine,
      m_context = None,
      m_stream = 0,
      device_calls = []\<rparr>"

text \<open>
  A parsed detection network with one input of 512 by 512 and two scales (class maps
  of height 64 and 32, then the two box maps), built for INT8 with the batch triple
  (1, 4, 8); thresholds and anchors are given as integers. \<open>example_surplus_args\<close>
  is the same build with three anchor entries for the two scales.
\<close>

definition example_graph :: onnx_graph where
  "example_graph =
     \<lparr>onnx_inputs = [0],
      onnx_outputs = [1, 2, 3, 4],
      onnx_dims = (\<lambda>n. if n = 0 then Dims4 (- 1) 3 512 512
                         else if n = 1 then Dims4 (- 1) 36 64 64
                         else if n = 2 then Dims4 (- 1) 36 32 32
                         else if n = 3 then Dims4 (- 1) 16 64 64
                         else Dims4 (- 1) 16 32 32),
      onnx_name = (\<lambda>n. if n = 0 then ''input_1'' else ''output'')\<rparr>"

definition example_args :: "int build_args" where
  "example_args =
     \<lparr>parsed = example_graph, dynamic_batch_opts = [1, 4, 8], precision = ''INT8'',
      score_thresh = 5, top_n = 1000, anchors = [[1, 2, 3, 4], [5, 6, 7, 8]],
      rotated = False, nms_thresh = 50, detections_per_im = 100,
      calibration_images = [''a.jpg''], model_name = ''model'',
      calibration_table = ''table'', verbose = False, workspace_size = 1024,
      profile_isValid = (\<lambda>p. True)\<rparr>"


section \<open>Vocabulary for the statements about the build\<close>

text \<open>
  The number of scales \<open>S\<close> that the constructor reads off the parsed network, the
  two outputs it pairs for scale \<open>i\<close>, and the two heights whose quotient is the
  scale factor of line 152.
\<close>

definition nb_scales :: "'f build_args \<Rightarrow> nat" where
  "nb_scales a = length (onnx_outputs (parsed a)) div 2"

definition class_output :: "'f build_args \<Rightarrow> nat \<Rightarrow> tensor" where
  "class_output a i = ParsedTensor (onnx_outputs (parsed a) ! i)"

definition box_output :: "'f build_args \<Rightarrow> nat \<Rightarrow> tensor" where
  "box_output a i = ParsedTensor (onnx_outputs (parsed a) ! (nb_scales a + i))"

definition input_height :: "'f build_args \<Rightarrow> int" where
  "input_height a = d_at (onnx_dims (parsed a) (onnx_inputs (parsed a) ! 0)) 2"

definition class_height :: "'f build_args \<Rightarrow> nat \<Rightarrow> int" where
  "class_height a i = d_at (onnx_dims (parsed a) (onnx_outputs (parsed a) ! i)) 2"

text \<open>The division of line 152 has a result for scale \<open>i\<close>.\<close>

definition scale_defined :: "'f build_args \<Rightarrow> nat \<Rightarrow> bool" where
  "scale_defined a i =
     (class_height a i \<noteq> 0 \<and> \<not> (input_height a = INT_MIN \<and> class_height a i = - 1))"

definition scale_factor :: "'f build_args \<Rightarrow> nat \<Rightarrow> int" where
  "scale_factor a i = trunc_div (input_height a) (class_height a i)"

text \<open>The plugin that \<open>rotated\<close> selects for scale \<open>i\<close>, and the one for the NMS stage.\<close>

definition decode_plugin :: "'f build_args \<Rightarrow> nat \<Rightarrow> 'f IPluginV2" where
  "decode_plugin a i =
     (if \<not> rotated a
      then DecodePlugin (score_thresh a) (top_n a) (anchors a ! i) (scale_factor a i)
      else DecodeRotatePlugin (score_thresh a) (top_n a) (anchors a ! i) (scale_factor a i))"

definition nms_plugin :: "'f build_args \<Rightarrow> 'f IPluginV2" where
  "nms_plugin a =
     (if \<not> rotated a then NMSPlugin (nms_thresh a) (detections_per_im a)
      else NMSRotatePlugin (nms_thresh a) (detections_per_im a))"

text \<open>
  The conditions under which the constructor meets none of its undefined cases:
  \<open>graph_ok\<close> for lines 141 to 188 and \<open>buildable\<close> for the whole constructor
  (lemmas \<open>rewrite_graph_iff\<close> and \<open>Engine_build_Inr_buildable\<close> show that they are
  necessary as well).
\<close>

definition graph_ok :: "'f build_args \<Rightarrow> bool" where
  "graph_ok a =
     (distinct (onnx_outputs (parsed a)) \<and> 1 \<le> nb_scales a \<and>
      nb_scales a \<le> length (anchors a) \<and> (\<forall>i<nb_scales a. scale_defined a i))"

definition buildable :: "'f build_args \<Rightarrow> bool" where
  "buildable a =
     (onnx_inputs (parsed a) \<noteq> [] \<and> 3 \<le> length (dynamic_batch_opts a) \<and> graph_ok a)"

text \<open>
  What the frame holds on entry to the decode loop (\<open>decode_frame\<close>, \<open>entry_frame\<close>),
  and the frame that the decode loop from scale \<open>i\<close> and the whole rewriting leave,
  in closed form (\<open>decoded\<close>, \<open>rewritten\<close>); lemmas \<open>decode_loop_iff\<close> and
  \<open>rewrite_graph_iff\<close> relate them to the code.
\<close>

definition decode_frame :: "'f build_args \<Rightarrow> 'f build_frame \<Rightarrow> bool" where
  "decode_frame a fr =
     (net_outputs (network fr) = map ParsedTensor (onnx_outputs (parsed a)) \<and>
      (\<forall>n. tensor_dims (network fr) (ParsedTensor n) = onnx_dims (parsed a) n) \<and>
      d_at (inputDims fr) 2 = input_height a)"

definition entry_frame :: "'f build_args \<Rightarrow> 'f build_frame \<Rightarrow> bool" where
  "entry_frame a fr =
     (decode_frame a fr \<and> net_layers (network fr) = [] \<and> scores fr = [] \<and>
      boxes fr = [] \<and> classes fr = [] \<and> concat_v fr = [])"

definition decoded :: "'f build_args \<Rightarrow> nat \<Rightarrow> 'f build_frame \<Rightarrow> 'f build_frame" where
  "decoded a i fr =
     fr\<lparr>network := (network fr)\<lparr>net_layers := net_layers (network fr) @
            map (\<lambda>j. PluginV2Layer [class_output a j, box_output a j] (decode_plugin a j))
              [i..<nb_scales a]\<rparr>,
        scores := scores fr @ map (\<lambda>j. LayerOutput j 0) [i..<nb_scales a],
        boxes := boxes fr @ map (\<lambda>j. LayerOutput j 1) [i..<nb_scales a],
        classes := classes fr @ map (\<lambda>j. LayerOutput j 2) [i..<nb_scales a],
        calls := calls fr @
            map (\<lambda>j. AddPluginV2 [class_output a j, box_output a j] (decode_plugin a j))
              [i..<nb_scales a]\<rparr>"

definition rewritten :: "'f build_args \<Rightarrow> 'f build_frame \<Rightarrow> 'f build_frame" where
  "rewritten a fr =
     (let S = nb_scales a;
          sc = map (\<lambda>j. LayerOutput j 0) [0..<S];
          bx = map (\<lambda>j. LayerOutput j 1) [0..<S];
          cl = map (\<lambda>j. LayerOutput j 2) [0..<S];
          cc = [LayerOutput S 0, LayerOutput (S + 1) 0, LayerOutput (S + 2) 0]
      in fr\<lparr>network := (network fr)
              \<lparr>net_outputs := [LayerOutput (S + 3) 0, LayerOutput (S + 3) 1,
                               LayerOutput (S + 3) 2],
               net_layers :=
                 map (\<lambda>j. PluginV2Layer [class_output a j, box_output a j] (decode_plugin a j))
                   [0..<S] @
                 [ConcatenationLayer sc, ConcatenationLayer bx, ConcatenationLayer cl,
                  PluginV2Layer cc (nms_plugin a)],
               tensor_name := (tensor_name (network fr))
                 (LayerOutput (S + 3) 0 := ''scores'',
                  LayerOutput (S + 3) 1 := ''boxes'',
                  LayerOutput (S + 3) 2 := ''classes'')\<rparr>,
            scores := sc, boxes := bx, classes := cl, concat_v := cc,
            calls := calls fr @
              [Cout ''Building accelerated plugins...''] @
              map (\<lambda>j. AddPluginV2 [class_output a j, box_output a j] (decode_plugin a j))
                [0..<S] @
              map UnmarkOutput (map ParsedTensor (onnx_outputs (parsed a))) @
              [AddConcatenation sc, AddConcatenation bx, AddConcatenation cl,
               AddPluginV2 cc (nms_plugin a),
               MarkOutput (LayerOutput (S + 3) 0), SetName (LayerOutput (S + 3) 0) ''scores'',
               MarkOutput (LayerOutput (S + 3) 1), SetName (LayerOutput (S + 3) 1) ''boxes'',
               MarkOutput (LayerOutput (S + 3) 2),
               SetName (LayerOutput (S + 3) 2) ''classes'']\<rparr>)"

text \<open>The calls that mark or unmark a network output.\<close>

fun output_marking :: "'f build_call \<Rightarrow> bool" where
  "output_marking (UnmarkOutput t) = True"
| "output_marking (MarkOutput t) = True"
| "output_marking c = False"

section \<open>The inference side: properties\<close>

text \<open>
  While the index has not passed the end of \<open>buffers\<close> and \<open>buffers\<close> is shorter than
  the bound, the loop binds the remaining buffers and then raises
  \<open>std_out_of_range\<close>.
\<close>

lemma infer_loop_short:
  assumes "m_context eng = Some c" "i \<le> length buffers" "length buffers < e"
    and "e = length (io_tensor_names eg)"
  shows "infer_loop eg buffers i e eng =
     (Some std_out_of_range,
      eng\<lparr>m_context := Some (c\<lparr>tensor_address :=
                 rev (map (\<lambda>j. (io_tensor_names eg ! j, buffers ! j)) [i..<length buffers])
                 @ tensor_address c\<rparr>),
          device_calls := device_calls eng @
             map (\<lambda>j. SetTensorAddress (io_tensor_names eg ! j) (buffers ! j))
               [i..<length buffers]\<rparr>)"
  using assms
proof (induction "length buffers - i" arbitrary: i eng c)
  case 0
  then have "i = length buffers" by simp
  with 0 show ?case
    by (simp add: infer_loop.simps [of eg buffers "length buffers"] getIOTensorName_def)
next
  case (Suc n)
  then have lt: "i < length buffers" by simp
  let ?name = "io_tensor_names eg ! i"
  let ?c' = "c\<lparr>tensor_address := (?name, buffers ! i) # tensor_address c\<rparr>"
  let ?eng' = "eng\<lparr>m_context := Some ?c',
                   device_calls := device_calls eng @ [SetTensorAddress ?name (buffers ! i)]\<rparr>"
  have step: "infer_loop eg buffers i e eng = infer_loop eg buffers (Suc i) e ?eng'"
    using lt Suc.prems
    by (simp add: infer_loop.simps [of eg buffers i] getIOTensorName_def setTensorAddress_def)
  have "infer_loop eg buffers (Suc i) e ?eng' = (Some std_out_of_range,
      ?eng'\<lparr>m_context := Some (?c'\<lparr>tensor_address :=
                 rev (map (\<lambda>j. (io_tensor_names eg ! j, buffers ! j)) [Suc i..<length buffers])
                 @ tensor_address ?c'\<rparr>),
          device_calls := device_calls ?eng' @
             map (\<lambda>j. SetTensorAddress (io_tensor_names eg ! j) (buffers ! j))
               [Suc i..<length buffers]\<rparr>)"
    using Suc.hyps(2) lt Suc.prems
    by (intro Suc.hyps(1)) auto
  with step show ?case
    using lt by (simp add: upt_conv_Cons)
qed

text \<open>
  With a buffer for every I/O tensor the loop binds them all, and \<open>infer\<close> then
  enqueues on the stream and synchronizes.
\<close>

lemma infer_loop_enough:
  assumes "m_context eng = Some c" and "i \<le> e" and "e \<le> length buffers"
    and "e = length (io_tensor_names eg)"
  shows "infer_loop eg buffers i e eng =
     (None,
      eng\<lparr>m_context := Some (c\<lparr>tensor_address :=
                 rev (map (\<lambda>j. (io_tensor_names eg ! j, buffers ! j)) [i..<e])
                 @ tensor_address c\<rparr>),
          device_calls := device_calls eng @
             map (\<lambda>j. SetTensorAddress (io_tensor_names eg ! j) (buffers ! j)) [i..<e]\<rparr>)"
  using assms
proof (induction "e - i" arbitrary: i eng c)
  case 0
  then have i: "i = e" by simp
  have "infer_loop eg buffers i e eng = (None, eng)"
    by (subst infer_loop.simps) (simp add: i)
  then show ?case
    using "0.prems"(1) i by simp
next
  case (Suc n)
  then have lt: "i < e" by simp
  let ?name = "io_tensor_names eg ! i"
  let ?c' = "c\<lparr>tensor_address := (?name, buffers ! i) # tensor_address c\<rparr>"
  let ?eng' = "eng\<lparr>m_context := Some ?c',
                   device_calls := device_calls eng @ [SetTensorAddress ?name (buffers ! i)]\<rparr>"
  have step: "infer_loop eg buffers i e eng = infer_loop eg buffers (Suc i) e ?eng'"
    using lt Suc.prems
    by (simp add: infer_loop.simps [of eg buffers i] getIOTensorName_def setTensorAddress_def)
  have "infer_loop eg buffers (Suc i) e ?eng' = (None,
      ?eng'\<lparr>m_context := Some (?c'\<lparr>tensor_address :=
                 rev (map (\<lambda>j. (io_tensor_names eg ! j, buffers ! j)) [Suc i..<e])
                 @ tensor_address ?c'\<rparr>),
          device_calls := device_calls ?eng' @
             map (\<lambda>j. SetTensorAddress (io_tensor_names eg ! j) (buffers ! j)) [Suc i..<e]\<rparr>)"
    using Suc.hyps(2) lt Suc.prems
    by (intro Suc.hyps(1)) auto
  with step show ?case
    using lt by (simp add: upt_conv_Cons)
qed

lemma infer_enough_buffers_enqueues:
  assumes "m_engine eng = Some eg" and "m_context eng = Some c"
    and "getNbIOTensors eg \<le> length buffers"
  shows "fst (Engine_infer eng buffers batch) = None \<and>
         device_calls (snd (Engine_infer eng buffers batch)) =
           device_calls eng @
           map (\<lambda>j. SetTensorAddress (io_tensor_names eg ! j) (buffers ! j))
             [0..<getNbIOTensors eg] @
           [EnqueueV3 (m_stream eng), CudaStreamSynchronize (m_stream eng)]"
  using assms infer_loop_enough [of eng c 0 "getNbIOTensors eg" buffers eg]
  by (simp add: Engine_infer_def getNbIOTensors_def)

text \<open>
  C7. In the Ready state (engine and context present), \<open>getInputSize\<close> returns
  dimensions 2 and 3 (height, width) of the declared shape of I/O tensor 0, and
  \<open>getMaxDetections\<close> returns dimension 1 of the declared shape of I/O tensor 1.
\<close>

theorem accessors_read_declared_shapes:
  assumes "m_engine eng = Some eg" and "m_context eng = Some c"
    and "getIOTensorName eg 0 = Some name0"
    and "map_of (tensor_shapes eg) name0 = Some shape0"
    and "getIOTensorName eg 1 = Some name1"
    and "map_of (tensor_shapes eg) name1 = Some shape1"
  shows "Engine_getInputSize eng = Inr [d_at shape0 2, d_at shape0 3] \<and>
         Engine_getMaxDetections eng = Inr (d_at shape1 1)"
  using assms
  by (simp add: Engine_getInputSize_def Engine_getMaxDetections_def getTensorShape_def)

theorem accessors_read_declared_shapes_witness:
  "m_engine example_ready = Some example_cuda_engine \<and>
   getIOTensorName example_cuda_engine 0 = Some ''input_1'' \<and>
   getIOTensorName example_cuda_engine 1 = Some ''scores'' \<and>
   Engine_getInputSize example_ready = Inr [512, 640] \<and>
   Engine_getMaxDetections example_ready = Inr 100"
  using accessors_read_declared_shapes [of example_ready example_cuda_engine
      "\<lparr>tensor_address = []\<rparr>" "''input_1''" "Dims4 (- 1) 3 512 640"
      "''scores''" "\<lparr>nbDims = 2, d = [- 1, 100, 0, 0, 0, 0, 0, 0]\<rparr>"]
  by (simp add: example_ready_def example_cuda_engine_def getIOTensorName_def
      Dims4_def d_at_def)

text \<open>
  C8. When \<open>buffers\<close> is shorter than the engine's I/O tensor count, \<open>infer\<close> on a
  Ready engine raises \<open>std_out_of_range\<close>: it binds the tensors that have a buffer
  and makes no other call, so nothing is enqueued.
\<close>

theorem infer_short_buffers_raises:
  assumes "m_engine eng = Some eg" and "m_context eng = Some c"
    and "length buffers < getNbIOTensors eg"
  shows "fst (Engine_infer eng buffers batch) = Some std_out_of_range \<and>
         device_calls (snd (Engine_infer eng buffers batch)) =
           device_calls eng @
           map (\<lambda>j. SetTensorAddress (io_tensor_names eg ! j) (buffers ! j))
             [0..<length buffers] \<and>
         (\<forall>s. EnqueueV3 s \<notin> set (drop (length (device_calls eng))
                 (device_calls (snd (Engine_infer eng buffers batch)))))"
  using assms infer_loop_short [of eng c 0 buffers "getNbIOTensors eg" eg]
  by (auto simp: Engine_infer_def getNbIOTensors_def)

theorem infer_short_buffers_raises_witness:
  "length [100, 200 :: nat] < getNbIOTensors example_cuda_engine \<and>
   fst (Engine_infer example_ready [100, 200] 1) = Some std_out_of_range \<and>
   device_calls (snd (Engine_infer example_ready [100, 200] 1)) =
     [SetTensorAddress ''input_1'' 100, SetTensorAddress ''scores'' 200]"
  using infer_short_buffers_raises [of example_ready example_cuda_engine
      "\<lparr>tensor_address = []\<rparr>" "[100, 200]" 1]
  by (simp add: example_ready_def example_cuda_engine_def getNbIOTensors_def upt_rec)

text \<open>
  C9. In \<open>_prepare\<close> on a loaded engine whose context is created, the profile is
  selected with the value the stream member had on entry, and only then is the
  stream created: a created stream that differs from that prior value is never the
  one passed to the profile selection.
\<close>

theorem prepare_selects_profile_before_stream_exists:
  assumes "m_engine eng = Some eg" and "created_context = Some c"
    and "created_stream \<noteq> m_stream eng"
  shows "\<exists>eng'. Engine_prepare created_context created_stream eng = Inr eng' \<and>
           device_calls eng' = device_calls eng @
             [CreateExecutionContext,
              SetOptimizationProfileAsync 0 (m_stream eng),
              CudaStreamCreate created_stream] \<and>
           m_stream eng' = created_stream \<and>
           (\<forall>k. SetOptimizationProfileAsync k created_stream \<notin>
                  set (drop (length (device_calls eng)) (device_calls eng')))"
  using assms by (simp add: Engine_prepare_def Let_def)

theorem prepare_selects_profile_before_stream_exists_witness:
  "m_engine example_loaded = Some example_cuda_engine \<and>
   (7 :: nat) \<noteq> m_stream example_loaded \<and>
   (\<exists>eng'. Engine_prepare (Some \<lparr>tensor_address = []\<rparr>) 7 example_loaded = Inr eng' \<and>
      device_calls eng' =
        [CreateExecutionContext, SetOptimizationProfileAsync 0 0, CudaStreamCreate 7] \<and>
      m_stream eng' = 7)"
  using prepare_selects_profile_before_stream_exists [of example_loaded example_cuda_engine
      "Some \<lparr>tensor_address = []\<rparr>" "\<lparr>tensor_address = []\<rparr>" 7]
  by (auto simp: example_loaded_def)

text \<open>
  C10. \<open>infer\<close> never reads its \<open>batch\<close> argument: two calls that differ only in
  \<open>batch\<close> raise the same error or none and leave the same object, with the same
  bindings and the same log of calls.
\<close>

theorem infer_independent_of_batch:
  "Engine_infer eng buffers batch1 = Engine_infer eng buffers batch2"
  by (simp add: Engine_infer_def)

section \<open>The build side: what each stage leaves\<close>

lemma decode_frame_decoded [simp]:
  "decode_frame a (fr\<lparr>network := (network fr)\<lparr>net_layers := ls\<rparr>, scores := s, boxes := b,
       classes := c, calls := cs\<rparr>) = decode_frame a fr"
  by (simp add: decode_frame_def)

text \<open>
  One pass of the decode loop completes exactly when the division has a result and
  \<open>anchors[i]\<close> exists; it then adds one plugin layer and its three outputs.
\<close>

lemma decode_step_iff:
  assumes "decode_frame a fr" and "i < nb_scales a"
  shows "decode_step a (length (onnx_outputs (parsed a))) i fr = Inr fr' \<longleftrightarrow>
     scale_defined a i \<and> i < length (anchors a) \<and>
     fr' = fr\<lparr>network := (network fr)\<lparr>net_layers := net_layers (network fr) @
                   [PluginV2Layer [class_output a i, box_output a i] (decode_plugin a i)]\<rparr>,
             scores := scores fr @ [LayerOutput (length (net_layers (network fr))) 0],
             boxes := boxes fr @ [LayerOutput (length (net_layers (network fr))) 1],
             classes := classes fr @ [LayerOutput (length (net_layers (network fr))) 2],
             calls := calls fr @
                   [AddPluginV2 [class_output a i, box_output a i] (decode_plugin a i)]\<rparr>"
proof -
  have "i < length (onnx_outputs (parsed a))"
    and "length (onnx_outputs (parsed a)) div 2 + i < length (onnx_outputs (parsed a))"
    using assms(2) by (auto simp: nb_scales_def)
  then show ?thesis
    using assms
    by (auto simp: decode_step_def getOutput_def int_div_def scale_defined_def Let_def
        addPluginV2_def layer_getOutput_def plugin_getNbOutputs_def decode_frame_def
        class_output_def box_output_def decode_plugin_def scale_factor_def class_height_def
        nb_scales_def)
qed

text \<open>
  The decode loop from scale \<open>i\<close> completes exactly when every remaining pass does, and
  then leaves the frame \<open>decoded a i fr\<close>.
\<close>

lemma decode_loop_iff:
  assumes "decode_frame a fr" and "length (net_layers (network fr)) = i"
    and "i \<le> nb_scales a"
  shows "decode_loop a (length (onnx_outputs (parsed a))) i fr = Inr fr' \<longleftrightarrow>
     (\<forall>j. i \<le> j \<and> j < nb_scales a \<longrightarrow> scale_defined a j \<and> j < length (anchors a)) \<and>
     fr' = decoded a i fr"
  using assms
proof (induction "nb_scales a - i" arbitrary: i fr)
  case 0
  then have i: "i = nb_scales a" by simp
  have "decode_loop a (length (onnx_outputs (parsed a))) i fr = Inr fr"
    by (subst decode_loop.simps) (simp add: i nb_scales_def)
  moreover have "decoded a i fr = fr"
    by (simp add: decoded_def i)
  ultimately show ?case
    using i by auto
next
  case (Suc n)
  then have lt: "i < nb_scales a" by simp
  let ?N = "length (onnx_outputs (parsed a))"
  let ?fr1 = "fr\<lparr>network := (network fr)\<lparr>net_layers := net_layers (network fr) @
                   [PluginV2Layer [class_output a i, box_output a i] (decode_plugin a i)]\<rparr>,
             scores := scores fr @ [LayerOutput i 0],
             boxes := boxes fr @ [LayerOutput i 1],
             classes := classes fr @ [LayerOutput i 2],
             calls := calls fr @
                   [AddPluginV2 [class_output a i, box_output a i] (decode_plugin a i)]\<rparr>"
  have step: "\<And>x. decode_step a ?N i fr = Inr x \<longleftrightarrow>
      scale_defined a i \<and> i < length (anchors a) \<and> x = ?fr1"
    using decode_step_iff [OF Suc.prems(1) lt] Suc.prems(2) by simp
  have unfold: "decode_loop a ?N i fr =
      (case decode_step a ?N i fr of Inl e \<Rightarrow> Inl e
       | Inr x \<Rightarrow> decode_loop a ?N (Suc i) x)"
    using lt by (simp add: decode_loop.simps [of a ?N i] nb_scales_def)
  have rest: "decode_loop a ?N (Suc i) ?fr1 = Inr fr' \<longleftrightarrow>
      (\<forall>j. Suc i \<le> j \<and> j < nb_scales a \<longrightarrow> scale_defined a j \<and> j < length (anchors a)) \<and>
      fr' = decoded a (Suc i) ?fr1"
  proof (rule Suc.hyps(1))
    show "n = nb_scales a - Suc i" using Suc.hyps(2) by simp
    show "decode_frame a ?fr1" using Suc.prems(1) by simp
    show "length (net_layers (network ?fr1)) = Suc i" using Suc.prems(2) by simp
    show "Suc i \<le> nb_scales a" using lt by simp
  qed
  have glue: "decoded a (Suc i) ?fr1 = decoded a i fr"
    using lt by (simp add: decoded_def upt_conv_Cons)
  have split_le: "\<And>j. i \<le> j \<longleftrightarrow> j = i \<or> Suc i \<le> j"
    by auto
  have split_all: "(\<forall>j. i \<le> j \<and> j < nb_scales a \<longrightarrow> scale_defined a j \<and> j < length (anchors a)) \<longleftrightarrow>
      (scale_defined a i \<and> i < length (anchors a)) \<and>
      (\<forall>j. Suc i \<le> j \<and> j < nb_scales a \<longrightarrow> scale_defined a j \<and> j < length (anchors a))"
    using lt by (simp only: split_le) blast
  show ?case
  proof (cases "decode_step a ?N i fr")
    case (Inl e)
    have "\<not> (scale_defined a i \<and> i < length (anchors a))"
      using step [of ?fr1] Inl by simp
    moreover from Inl unfold have "decode_loop a ?N i fr = Inl e" by simp
    ultimately show ?thesis unfolding split_all by auto
  next
    case (Inr x)
    have ok: "scale_defined a i \<and> i < length (anchors a)" and x: "x = ?fr1"
      using step [of x] Inr by simp_all
    from Inr x unfold have eq: "decode_loop a ?N i fr = decode_loop a ?N (Suc i) ?fr1"
      by simp
    show ?thesis
      unfolding eq rest glue split_all using ok by blast
  qed
qed

text \<open>
  Every pass of the cleanup loop removes at least one output, so the loop cannot
  complete on fewer outputs than passes; on as many outputs as passes it completes
  exactly when the outputs are distinct, and then no output is left.
\<close>

lemma cleanup_loop_short:
  "cleanup_loop nbOutputs i fr = Inr fr' \<Longrightarrow> nbOutputs - i \<le> length (net_outputs (network fr))"
proof (induction "nbOutputs - i" arbitrary: i fr)
  case 0
  then show ?case by simp
next
  case (Suc n)
  then have lt: "i < nbOutputs" by simp
  show ?case
  proof (cases "net_outputs (network fr)")
    case Nil
    with Suc.prems lt show ?thesis
      by (simp add: cleanup_loop.simps [of nbOutputs i] getOutput_def)
  next
    case (Cons x xs)
    let ?fr1 = "fr\<lparr>network := unmarkOutput x (network fr),
                   calls := calls fr @ [UnmarkOutput x]\<rparr>"
    have "cleanup_loop nbOutputs (Suc i) ?fr1 = Inr fr'"
      using Suc.prems lt Cons by (simp add: cleanup_loop.simps [of nbOutputs i] getOutput_def)
    then have "nbOutputs - Suc i \<le> length (net_outputs (network ?fr1))"
      using Suc.hyps(2) by (intro Suc.hyps(1)) auto
    moreover have "length (net_outputs (network ?fr1)) \<le> length xs"
      using Cons by (simp add: unmarkOutput_def)
    ultimately show ?thesis using Cons by simp
  qed
qed

lemma cleanup_loop_iff:
  assumes "length (net_outputs (network fr)) = nbOutputs - i" and "i \<le> nbOutputs"
  shows "cleanup_loop nbOutputs i fr = Inr fr' \<longleftrightarrow>
     distinct (net_outputs (network fr)) \<and>
     fr' = fr\<lparr>network := (network fr)\<lparr>net_outputs := []\<rparr>,
             calls := calls fr @ map UnmarkOutput (net_outputs (network fr))\<rparr>"
  using assms
proof (induction "net_outputs (network fr)" arbitrary: i fr)
  case Nil
  then have "\<not> i < nbOutputs" by simp
  with Nil(1) [symmetric] show ?case
    by (auto simp: cleanup_loop.simps [of nbOutputs i])
next
  case (Cons x xs)
  let ?fr1 = "fr\<lparr>network := unmarkOutput x (network fr),
                 calls := calls fr @ [UnmarkOutput x]\<rparr>"
  have outs: "net_outputs (network fr) = x # xs"
    using Cons.hyps(2) by simp
  have lt: "i < nbOutputs"
    using Cons.prems(1) outs by simp
  have step: "cleanup_loop nbOutputs i fr = cleanup_loop nbOutputs (Suc i) ?fr1"
    using lt outs
    by (simp add: cleanup_loop.simps [of nbOutputs i] getOutput_def)
  show ?case
  proof (cases "x \<in> set xs")
    case True
    have "length (net_outputs (network ?fr1)) < length xs"
      using True outs by (simp add: unmarkOutput_def length_removeAll_less)
    then have "length (net_outputs (network ?fr1)) < nbOutputs - Suc i"
      using Cons.prems(1) outs by simp
    then have "cleanup_loop nbOutputs (Suc i) ?fr1 \<noteq> Inr fr'"
      using cleanup_loop_short [of nbOutputs "Suc i" ?fr1 fr'] by auto
    with step True outs show ?thesis by simp
  next
    case False
    then have fr1: "?fr1 = fr\<lparr>network := (network fr)\<lparr>net_outputs := xs\<rparr>,
                           calls := calls fr @ [UnmarkOutput x]\<rparr>"
      using outs by (simp add: unmarkOutput_def)
    have "cleanup_loop nbOutputs (Suc i) ?fr1 = Inr fr' \<longleftrightarrow>
       distinct (net_outputs (network ?fr1)) \<and>
       fr' = ?fr1\<lparr>network := (network ?fr1)\<lparr>net_outputs := []\<rparr>,
             calls := calls ?fr1 @ map UnmarkOutput (net_outputs (network ?fr1))\<rparr>"
    proof (rule Cons.hyps(1))
      show "xs = net_outputs (network ?fr1)" using fr1 by simp
      show "length (net_outputs (network ?fr1)) = nbOutputs - Suc i"
        using Cons.prems(1) outs fr1 by simp
      show "Suc i \<le> nbOutputs" using lt by simp
    qed
    with step False outs fr1 show ?thesis by simp
  qed
qed

lemma concat_loop_iff:
  "concat_loop [s, b, c] fr = Inr fr' \<longleftrightarrow>
     s \<noteq> [] \<and> b \<noteq> [] \<and> c \<noteq> [] \<and>
     fr' = fr\<lparr>network := (network fr)\<lparr>net_layers := net_layers (network fr) @
                   [ConcatenationLayer s, ConcatenationLayer b, ConcatenationLayer c]\<rparr>,
             concat_v := concat_v fr @
                   [LayerOutput (length (net_layers (network fr))) 0,
                    LayerOutput (length (net_layers (network fr)) + 1) 0,
                    LayerOutput (length (net_layers (network fr)) + 2) 0],
             calls := calls fr @
                   [AddConcatenation s, AddConcatenation b, AddConcatenation c]\<rparr>"
  by (auto simp: addConcatenation_def layer_getOutput_def nth_append)

lemma add_nms_plugin_completes:
  assumes "net_outputs (network fr) = []"
  shows "add_nms_plugin a fr =
     Inr (fr\<lparr>network := (network fr)
               \<lparr>net_outputs := [LayerOutput (length (net_layers (network fr))) 0,
                                LayerOutput (length (net_layers (network fr))) 1,
                                LayerOutput (length (net_layers (network fr))) 2],
                net_layers := net_layers (network fr) @
                   [PluginV2Layer (concat_v fr) (nms_plugin a)],
                tensor_name := (tensor_name (network fr))
                   (LayerOutput (length (net_layers (network fr))) 0 := ''scores'',
                    LayerOutput (length (net_layers (network fr))) 1 := ''boxes'',
                    LayerOutput (length (net_layers (network fr))) 2 := ''classes'')\<rparr>,
             calls := calls fr @
                   [AddPluginV2 (concat_v fr) (nms_plugin a),
                    MarkOutput (LayerOutput (length (net_layers (network fr))) 0),
                    SetName (LayerOutput (length (net_layers (network fr))) 0) ''scores'',
                    MarkOutput (LayerOutput (length (net_layers (network fr))) 1),
                    SetName (LayerOutput (length (net_layers (network fr))) 1) ''boxes'',
                    MarkOutput (LayerOutput (length (net_layers (network fr))) 2),
                    SetName (LayerOutput (length (net_layers (network fr))) 2) ''classes'']\<rparr>)"
  using assms
  by (simp add: add_nms_plugin_def addPluginV2_def Let_def plugin_getNbOutputs_def
      mark_loop.simps layer_getOutput_def markOutput_def setName_def nms_plugin_def
      numeral_2_eq_2)

lemma and_then_Inr_iff:
  "and_then r f = Inr y \<longleftrightarrow> (\<exists>x. r = Inr x \<and> f x = Inr y)"
  by (cases r) (simp_all add: and_then_def)

text \<open>
  Lines 141 to 188 complete exactly under \<open>graph_ok\<close>, and then leave the frame
  \<open>rewritten a fr\<close>.
\<close>

lemma rewrite_graph_iff:
  assumes "entry_frame a fr"
  shows "rewrite_graph a fr = Inr fr' \<longleftrightarrow> graph_ok a \<and> fr' = rewritten a fr"
proof -
  let ?N = "length (onnx_outputs (parsed a))"
  define fr1 where "fr1 = fr\<lparr>calls := calls fr @ [Cout ''Building accelerated plugins...'']\<rparr>"
  define D1 where "D1 = decoded a 0 fr1"
  define C1 where "C1 = D1\<lparr>network := (network D1)\<lparr>net_outputs := []\<rparr>,
      calls := calls D1 @ map UnmarkOutput (net_outputs (network D1))\<rparr>"
  define K1 where "K1 = C1\<lparr>network := (network C1)\<lparr>net_layers := net_layers (network C1) @
        [ConcatenationLayer (scores C1), ConcatenationLayer (boxes C1),
         ConcatenationLayer (classes C1)]\<rparr>,
      concat_v := concat_v C1 @
        [LayerOutput (length (net_layers (network C1))) 0,
         LayerOutput (length (net_layers (network C1)) + 1) 0,
         LayerOutput (length (net_layers (network C1)) + 2) 0],
      calls := calls C1 @
        [AddConcatenation (scores C1), AddConcatenation (boxes C1),
         AddConcatenation (classes C1)]\<rparr>"
  have e: "decode_frame a fr" "net_layers (network fr) = []" "scores fr = []"
    "boxes fr = []" "classes fr = []" "concat_v fr = []"
    using assms by (simp_all add: entry_frame_def)
  have outs: "net_outputs (network fr) = map ParsedTensor (onnx_outputs (parsed a))"
    using e(1) by (simp add: decode_frame_def)
  have unfold: "rewrite_graph a fr =
      and_then (decode_loop a ?N 0 fr1) (\<lambda>fr2.
      and_then (cleanup_loop ?N 0 fr2) (\<lambda>fr3.
      and_then (concat_loop [scores fr3, boxes fr3, classes fr3] fr3) (\<lambda>fr4.
      add_nms_plugin a fr4)))"
    by (simp add: rewrite_graph_def Let_def fr1_def getNbOutputs_def outs)
  have D: "\<And>x. decode_loop a ?N 0 fr1 = Inr x \<longleftrightarrow>
      (\<forall>j<nb_scales a. scale_defined a j \<and> j < length (anchors a)) \<and> x = D1"
    using decode_loop_iff [of a fr1 0] e(1,2)
    by (simp add: fr1_def D1_def decode_frame_def)
  have D1_outs: "net_outputs (network D1) = map ParsedTensor (onnx_outputs (parsed a))"
    by (simp add: D1_def decoded_def fr1_def outs)
  have C: "\<And>x. cleanup_loop ?N 0 D1 = Inr x \<longleftrightarrow>
      distinct (onnx_outputs (parsed a)) \<and> x = C1"
    using cleanup_loop_iff [of D1 ?N 0] D1_outs
    by (simp add: C1_def distinct_map inj_on_def)
  have C1_lists: "scores C1 = map (\<lambda>j. LayerOutput j 0) [0..<nb_scales a]"
    "boxes C1 = map (\<lambda>j. LayerOutput j 1) [0..<nb_scales a]"
    "classes C1 = map (\<lambda>j. LayerOutput j 2) [0..<nb_scales a]"
    by (simp_all add: C1_def D1_def decoded_def fr1_def e)
  have K: "\<And>x. concat_loop [scores C1, boxes C1, classes C1] C1 = Inr x \<longleftrightarrow>
      1 \<le> nb_scales a \<and> x = K1"
    unfolding concat_loop_iff K1_def [symmetric]
    by (auto simp: C1_lists)
  have "net_outputs (network K1) = []"
    by (simp add: K1_def C1_def)
  then have N: "add_nms_plugin a K1 = Inr (rewritten a fr)"
    by (simp add: add_nms_plugin_completes K1_def C1_def D1_def decoded_def fr1_def e
        rewritten_def Let_def outs numeral_3_eq_3 numeral_2_eq_2)
  show ?thesis
  proof
    assume "rewrite_graph a fr = Inr fr'"
    then obtain x1 x2 x3 where
      1: "decode_loop a ?N 0 fr1 = Inr x1" and
      2: "cleanup_loop ?N 0 x1 = Inr x2" and
      3: "concat_loop [scores x2, boxes x2, classes x2] x2 = Inr x3" and
      4: "add_nms_plugin a x3 = Inr fr'"
      unfolding unfold and_then_Inr_iff by blast
    from 1 have dec: "\<forall>j<nb_scales a. scale_defined a j \<and> j < length (anchors a)"
      and x1: "x1 = D1" unfolding D by blast+
    from 2 have dis: "distinct (onnx_outputs (parsed a))" and x2: "x2 = C1"
      unfolding x1 C by blast+
    from 3 have one: "1 \<le> nb_scales a" and x3: "x3 = K1"
      unfolding x2 K by blast+
    from 4 N have "fr' = rewritten a fr"
      unfolding x3 by simp
    moreover have "nb_scales a \<le> length (anchors a)"
    proof (rule ccontr)
      assume "\<not> nb_scales a \<le> length (anchors a)"
      then have "length (anchors a) < nb_scales a" by simp
      with dec show False by blast
    qed
    ultimately show "graph_ok a \<and> fr' = rewritten a fr"
      using dec dis one by (simp add: graph_ok_def)
  next
    assume r: "graph_ok a \<and> fr' = rewritten a fr"
    then have "\<forall>j<nb_scales a. scale_defined a j \<and> j < length (anchors a)"
      by (auto simp: graph_ok_def)
    then have 1: "decode_loop a ?N 0 fr1 = Inr D1"
      unfolding D by simp
    have 2: "cleanup_loop ?N 0 D1 = Inr C1"
      unfolding C using r by (simp add: graph_ok_def)
    have 3: "concat_loop [scores C1, boxes C1, classes C1] C1 = Inr K1"
      unfolding K using r by (simp add: graph_ok_def)
    show "rewrite_graph a fr = Inr fr'"
      unfolding unfold by (simp only: 1 2 3 N and_then_def sum.case r)
  qed
qed

lemma configure_profile_Inr:
  assumes "configure_profile a = Inr fr0"
  shows "entry_frame a fr0" and "onnx_inputs (parsed a) \<noteq> []"
    and "3 \<le> length (dynamic_batch_opts a)"
    and "calls fr0 = [Cout (''Building '' @ precision a @ '' core model...'')]"
    and "calib fr0 = None"
    and "flags (builderConfig fr0) = flags (create_builder_config a)"
    and "calibration_profile (builderConfig fr0) = None"
    and "int8_calibrator (builderConfig fr0) = None"
    and "tensor_name (network fr0) = tensor_name (parsed_network (parsed a))"
  using assms
  by (auto simp: configure_profile_def Let_def getInput_def parsed_network_def entry_frame_def
      decode_frame_def input_height_def create_builder_config_def
      split: if_splits)

lemma configure_profile_completes:
  assumes "onnx_inputs (parsed a) \<noteq> []" and "3 \<le> length (dynamic_batch_opts a)"
  shows "\<exists>fr0. configure_profile a = Inr fr0"
  using assms
  by (simp add: configure_profile_def Let_def getInput_def parsed_network_def)

lemma configure_calibration_Inr:
  assumes "configure_calibration a fr0 = Inr fr1"
  shows "entry_frame a fr1 = entry_frame a fr0" and "calls fr1 = calls fr0"
    and "network fr1 = network fr0" and "profile fr1 = profile fr0"
    and "inputDims fr1 = inputDims fr0"
    and "optimization_profiles (builderConfig fr1) = optimization_profiles (builderConfig fr0)"
    and "(kFP16 \<in> flags (builderConfig fr1)) = (kFP16 \<in> flags (builderConfig fr0))"
  using assms
  by (auto simp: configure_calibration_def Let_def entry_frame_def decode_frame_def
      split: if_splits)

lemma configure_calibration_completes:
  assumes "3 \<le> length (dynamic_batch_opts a)"
  shows "\<exists>fr1. configure_calibration a fr0 = Inr fr1"
  using assms by (simp add: configure_calibration_def Let_def)

text \<open>
  The constructor completes exactly when the two configuration stages do and
  \<open>graph_ok\<close> holds; \<open>buildable\<close> is sufficient and necessary.
\<close>

lemma Engine_build_iff:
  "Engine_build a = Inr fr \<longleftrightarrow>
     (\<exists>fr0 fr1. configure_profile a = Inr fr0 \<and> configure_calibration a fr0 = Inr fr1 \<and>
        graph_ok a \<and> fr = build_engine (rewritten a fr1))"
proof
  assume "Engine_build a = Inr fr"
  then obtain fr0 fr1 fr2 where
    0: "configure_profile a = Inr fr0" and 1: "configure_calibration a fr0 = Inr fr1" and
    2: "rewrite_graph a fr1 = Inr fr2" and 3: "fr = build_engine fr2"
    unfolding Engine_build_def and_then_Inr_iff by auto
  have "entry_frame a fr1"
    using configure_profile_Inr(1) [OF 0] configure_calibration_Inr(1) [OF 1] by simp
  with 2 have "graph_ok a \<and> fr2 = rewritten a fr1"
    by (simp add: rewrite_graph_iff)
  with 0 1 3 show "\<exists>fr0 fr1. configure_profile a = Inr fr0 \<and>
      configure_calibration a fr0 = Inr fr1 \<and> graph_ok a \<and> fr = build_engine (rewritten a fr1)"
    by blast
next
  assume "\<exists>fr0 fr1. configure_profile a = Inr fr0 \<and> configure_calibration a fr0 = Inr fr1 \<and>
      graph_ok a \<and> fr = build_engine (rewritten a fr1)"
  then obtain fr0 fr1 where
    0: "configure_profile a = Inr fr0" and 1: "configure_calibration a fr0 = Inr fr1" and
    g: "graph_ok a" and f: "fr = build_engine (rewritten a fr1)"
    by blast
  have "entry_frame a fr1"
    using configure_profile_Inr(1) [OF 0] configure_calibration_Inr(1) [OF 1] by simp
  with g have "rewrite_graph a fr1 = Inr (rewritten a fr1)"
    by (simp add: rewrite_graph_iff)
  with 0 1 f show "Engine_build a = Inr fr"
    by (simp add: Engine_build_def and_then_def)
qed

lemma Engine_build_completes:
  assumes "buildable a"
  shows "\<exists>fr0 fr1. configure_profile a = Inr fr0 \<and> configure_calibration a fr0 = Inr fr1 \<and>
     Engine_build a = Inr (build_engine (rewritten a fr1))"
proof -
  obtain fr0 where 0: "configure_profile a = Inr fr0"
    using configure_profile_completes assms unfolding buildable_def by blast
  obtain fr1 where 1: "configure_calibration a fr0 = Inr fr1"
    using configure_calibration_completes assms unfolding buildable_def by blast
  have "Engine_build a = Inr (build_engine (rewritten a fr1))"
    unfolding Engine_build_iff using 0 1 assms unfolding buildable_def by blast
  with 0 1 show ?thesis by blast
qed

lemma Engine_build_Inr_buildable:
  assumes "Engine_build a = Inr fr"
  shows "buildable a"
  using assms configure_profile_Inr(2,3) unfolding Engine_build_iff buildable_def by blast

text \<open>The fields of the closed forms.\<close>

lemma rewritten_fields:
  "net_outputs (network (rewritten a fr)) =
     [LayerOutput (nb_scales a + 3) 0, LayerOutput (nb_scales a + 3) 1,
      LayerOutput (nb_scales a + 3) 2]"
  "net_layers (network (rewritten a fr)) =
     map (\<lambda>j. PluginV2Layer [class_output a j, box_output a j] (decode_plugin a j))
       [0..<nb_scales a] @
     [ConcatenationLayer (map (\<lambda>j. LayerOutput j 0) [0..<nb_scales a]),
      ConcatenationLayer (map (\<lambda>j. LayerOutput j 1) [0..<nb_scales a]),
      ConcatenationLayer (map (\<lambda>j. LayerOutput j 2) [0..<nb_scales a]),
      PluginV2Layer [LayerOutput (nb_scales a) 0, LayerOutput (nb_scales a + 1) 0,
                     LayerOutput (nb_scales a + 2) 0] (nms_plugin a)]"
  "tensor_name (network (rewritten a fr)) =
     (tensor_name (network fr))
       (LayerOutput (nb_scales a + 3) 0 := ''scores'',
        LayerOutput (nb_scales a + 3) 1 := ''boxes'',
        LayerOutput (nb_scales a + 3) 2 := ''classes'')"
  "builderConfig (rewritten a fr) = builderConfig fr"
  "profile (rewritten a fr) = profile fr"
  "calib (rewritten a fr) = calib fr"
  "inputDims (rewritten a fr) = inputDims fr"
  by (simp_all add: rewritten_def Let_def)

lemma rewritten_calls:
  "calls (rewritten a fr) =
     calls fr @
     [Cout ''Building accelerated plugins...''] @
     map (\<lambda>j. AddPluginV2 [class_output a j, box_output a j] (decode_plugin a j))
       [0..<nb_scales a] @
     map UnmarkOutput (map ParsedTensor (onnx_outputs (parsed a))) @
     [AddConcatenation (map (\<lambda>j. LayerOutput j 0) [0..<nb_scales a]),
      AddConcatenation (map (\<lambda>j. LayerOutput j 1) [0..<nb_scales a]),
      AddConcatenation (map (\<lambda>j. LayerOutput j 2) [0..<nb_scales a]),
      AddPluginV2 [LayerOutput (nb_scales a) 0, LayerOutput (nb_scales a + 1) 0,
                   LayerOutput (nb_scales a + 2) 0] (nms_plugin a),
      MarkOutput (LayerOutput (nb_scales a + 3) 0),
      SetName (LayerOutput (nb_scales a + 3) 0) ''scores'',
      MarkOutput (LayerOutput (nb_scales a + 3) 1),
      SetName (LayerOutput (nb_scales a + 3) 1) ''boxes'',
      MarkOutput (LayerOutput (nb_scales a + 3) 2),
      SetName (LayerOutput (nb_scales a + 3) 2) ''classes'']"
  by (simp add: rewritten_def Let_def)

lemma build_engine_fields:
  "network (build_engine fr) = network fr"
  "builderConfig (build_engine fr) = builderConfig fr"
  "profile (build_engine fr) = profile fr"
  "calib (build_engine fr) = calib fr"
  "inputDims (build_engine fr) = inputDims fr"
  "calls (build_engine fr) = calls fr @
     [Cout ''Applying optimizations and building TRT CUDA engine...'', BuildSerializedNetwork]"
  by (simp_all add: build_engine_def)

lemma filter_output_marking_calls:
  "filter output_marking (calls (rewritten a fr)) =
     filter output_marking (calls fr) @
     map UnmarkOutput (map ParsedTensor (onnx_outputs (parsed a))) @
     map MarkOutput (net_outputs (network (rewritten a fr)))"
  by (simp add: rewritten_calls rewritten_fields filter_map comp_def)

text \<open>
  The example build: its arguments, its heights, and that it is buildable.
\<close>

lemma example_args_fields:
  "onnx_outputs (parsed example_args) = [1, 2, 3, 4]"
  "onnx_inputs (parsed example_args) = [0]"
  "dynamic_batch_opts example_args = [1, 4, 8]"
  "anchors example_args = [[1, 2, 3, 4], [5, 6, 7, 8]]"
  "precision example_args = ''INT8''"
  "rotated example_args = False"
  "nb_scales example_args = 2"
  by (simp_all add: example_args_def example_graph_def nb_scales_def)

lemma example_args_scales:
  "input_height example_args = 512"
  "class_height example_args 0 = 64"
  "class_height example_args (Suc 0) = 32"
  by (simp_all add: input_height_def class_height_def example_args_def example_graph_def
      Dims4_def d_at_def)

lemma example_args_scale_defined: "\<forall>i<2. scale_defined example_args i"
  by (simp add: less_2_cases_iff scale_defined_def example_args_scales INT_MIN_def)

lemma example_args_buildable: "buildable example_args"
  using example_args_scale_defined
  by (simp add: buildable_def graph_ok_def example_args_fields)

section \<open>The build side: properties\<close>

text \<open>
  C1. For a parsed network with \<open>2 * S\<close> distinct outputs, \<open>S \<ge> 1\<close>, and an anchor
  set of length \<open>S\<close> (the network has an input, three batch sizes are given and the
  division of line 152 has a result for every scale), the constructor completes.
  The calls that mark or unmark an output are, in order, the unmarking of each of
  the \<open>2 * S\<close> original outputs and then the marking of the three outputs of the NMS
  layer; the network ends with exactly these three outputs, named scores, boxes,
  classes in this order, and none of the original outputs is left.
\<close>

theorem build_replaces_all_outputs:
  assumes "length (onnx_outputs (parsed a)) = 2 * S" and "1 \<le> S"
    and "length (anchors a) = S"
    and "distinct (onnx_outputs (parsed a))" and "onnx_inputs (parsed a) \<noteq> []"
    and "3 \<le> length (dynamic_batch_opts a)" and "\<forall>i<S. scale_defined a i"
  shows "\<exists>fr. Engine_build a = Inr fr \<and>
     net_outputs (network fr) =
       [LayerOutput (S + 3) 0, LayerOutput (S + 3) 1, LayerOutput (S + 3) 2] \<and>
     map (tensor_name (network fr)) (net_outputs (network fr)) =
       [''scores'', ''boxes'', ''classes''] \<and>
     set (net_outputs (network fr)) \<inter> ParsedTensor ` set (onnx_outputs (parsed a)) = {} \<and>
     filter output_marking (calls fr) =
       map UnmarkOutput (map ParsedTensor (onnx_outputs (parsed a))) @
       map MarkOutput (net_outputs (network fr))"
proof -
  have S: "nb_scales a = S"
    using assms(1) by (simp add: nb_scales_def)
  have "buildable a"
    using assms by (simp add: buildable_def graph_ok_def S)
  then obtain fr0 fr1 where 0: "configure_profile a = Inr fr0"
    and 1: "configure_calibration a fr0 = Inr fr1"
    and b: "Engine_build a = Inr (build_engine (rewritten a fr1))"
    using Engine_build_completes by blast
  define fr where "fr = build_engine (rewritten a fr1)"
  have c: "calls fr1 = [Cout (''Building '' @ precision a @ '' core model...'')]"
    using configure_profile_Inr(4) [OF 0] configure_calibration_Inr(2) [OF 1] by simp
  have o: "net_outputs (network fr) =
       [LayerOutput (S + 3) 0, LayerOutput (S + 3) 1, LayerOutput (S + 3) 2]"
    by (simp add: fr_def build_engine_fields rewritten_fields S)
  have n: "map (tensor_name (network fr)) (net_outputs (network fr)) =
       [''scores'', ''boxes'', ''classes'']"
    by (simp add: fr_def build_engine_fields rewritten_fields)
  have f: "filter output_marking (calls fr) =
       map UnmarkOutput (map ParsedTensor (onnx_outputs (parsed a))) @
       map MarkOutput (net_outputs (network fr))"
    by (simp add: fr_def build_engine_fields filter_output_marking_calls c)
  have i: "set (net_outputs (network fr)) \<inter> ParsedTensor ` set (onnx_outputs (parsed a)) = {}"
    unfolding o by auto
  show ?thesis
    using b o n i f unfolding fr_def [symmetric] by (intro exI [of _ fr] conjI)
qed

theorem build_replaces_all_outputs_witness:
  "length (onnx_outputs (parsed example_args)) = 2 * 2 \<and>
   length (anchors example_args) = 2 \<and>
   (\<exists>fr. Engine_build example_args = Inr fr \<and>
     net_outputs (network fr) = [LayerOutput 5 0, LayerOutput 5 1, LayerOutput 5 2] \<and>
     map (tensor_name (network fr)) (net_outputs (network fr)) =
       [''scores'', ''boxes'', ''classes''] \<and>
     filter output_marking (calls fr) =
       [UnmarkOutput (ParsedTensor 1), UnmarkOutput (ParsedTensor 2),
        UnmarkOutput (ParsedTensor 3), UnmarkOutput (ParsedTensor 4),
        MarkOutput (LayerOutput 5 0), MarkOutput (LayerOutput 5 1),
        MarkOutput (LayerOutput 5 2)])"
proof -
  have p: "length (onnx_outputs (parsed example_args)) = 2 * 2"
    "length (anchors example_args) = 2"
    "distinct (onnx_outputs (parsed example_args))"
    "onnx_inputs (parsed example_args) \<noteq> []"
    "3 \<le> length (dynamic_batch_opts example_args)"
    by (simp_all add: example_args_fields)
  have "1 \<le> (2 :: nat)" by simp
  from build_replaces_all_outputs [OF p(1) this p(2) p(3) p(4) p(5) example_args_scale_defined]
  obtain fr where b: "Engine_build example_args = Inr fr"
    and o: "net_outputs (network fr) =
       [LayerOutput (2 + 3) 0, LayerOutput (2 + 3) 1, LayerOutput (2 + 3) 2]"
    and n: "map (tensor_name (network fr)) (net_outputs (network fr)) =
       [''scores'', ''boxes'', ''classes'']"
    and f: "filter output_marking (calls fr) =
       map UnmarkOutput (map ParsedTensor (onnx_outputs (parsed example_args))) @
       map MarkOutput (net_outputs (network fr))"
    by (elim exE conjE)
  have o': "net_outputs (network fr) = [LayerOutput 5 0, LayerOutput 5 1, LayerOutput 5 2]"
    using o by simp
  have f': "filter output_marking (calls fr) =
       [UnmarkOutput (ParsedTensor 1), UnmarkOutput (ParsedTensor 2),
        UnmarkOutput (ParsedTensor 3), UnmarkOutput (ParsedTensor 4),
        MarkOutput (LayerOutput 5 0), MarkOutput (LayerOutput 5 1),
        MarkOutput (LayerOutput 5 2)]"
    unfolding f o' by (simp add: example_args_fields)
  show ?thesis
    using p(1,2) b o' n f' by (intro conjI exI [of _ fr])
qed







lemma configure_profile_profile:
  assumes "configure_profile a = Inr fr0" and "onnx_inputs (parsed a) = inp # rest"
  shows "profile fr0 =
     [((onnx_name (parsed a) inp, kMAX),
       Dims4 (dynamic_batch_opts a ! 2) (d_at (onnx_dims (parsed a) inp) 1)
         (d_at (onnx_dims (parsed a) inp) 2) (d_at (onnx_dims (parsed a) inp) 3)),
      ((onnx_name (parsed a) inp, kOPT),
       Dims4 (dynamic_batch_opts a ! 1) (d_at (onnx_dims (parsed a) inp) 1)
         (d_at (onnx_dims (parsed a) inp) 2) (d_at (onnx_dims (parsed a) inp) 3)),
      ((onnx_name (parsed a) inp, kMIN),
       Dims4 (dynamic_batch_opts a ! 0) (d_at (onnx_dims (parsed a) inp) 1)
         (d_at (onnx_dims (parsed a) inp) 2) (d_at (onnx_dims (parsed a) inp) 3))]"
    and "optimization_profiles (builderConfig fr0) =
       (if profile_isValid a (profile fr0) then [profile fr0] else [])"
    and "inputDims fr0 = onnx_dims (parsed a) inp"
  using assms
  by (auto simp: configure_profile_def Let_def getInput_def parsed_network_def
      create_builder_config_def setDimensions_def createOptimizationProfile_def
      split: if_splits)

lemma Engine_build_config:
  assumes "Engine_build a = Inr fr" and "configure_profile a = Inr fr0"
    and "configure_calibration a fr0 = Inr fr1"
  shows "builderConfig fr = builderConfig fr1" and "profile fr = profile fr1"
    and "calib fr = calib fr1" and "inputDims fr = inputDims fr1"
    and "fr = build_engine (rewritten a fr1)"
proof -
  from assms show "fr = build_engine (rewritten a fr1)"
    unfolding Engine_build_iff by auto
  then show "builderConfig fr = builderConfig fr1" "profile fr = profile fr1"
    "calib fr = calib fr1" "inputDims fr = inputDims fr1"
    by (simp_all add: build_engine_fields rewritten_fields)
qed

text \<open>
  C3. For the batch triple \<open>(bmin, bopt, bmax)\<close> with \<open>bmin \<le> bopt \<le> bmax\<close> and a parsed
  network with an input, the profile set up for that input has the shapes
  \<open>(bmin, c, h, w)\<close>, \<open>(bopt, c, h, w)\<close>, \<open>(bmax, c, h, w)\<close> for kMIN, kOPT, kMAX, where
  \<open>c, h, w\<close> are dimensions 1 to 3 of the input; so min \<open>\<le>\<close> opt \<open>\<le>\<close> max componentwise.
  The profile is added to the configuration exactly when \<^verbatim>\<open>isValid\<close> holds, and a
  build that completes still has this profile and this list of profiles.
\<close>

theorem profile_shapes_follow_batch_triple:
  assumes "dynamic_batch_opts a = [bmin, bopt, bmax]" and "bmin \<le> bopt" and "bopt \<le> bmax"
    and "onnx_inputs (parsed a) = inp # rest"
  shows "\<exists>fr0. configure_profile a = Inr fr0 \<and>
     getDimensions (profile fr0) (onnx_name (parsed a) inp) kMIN =
       Dims4 bmin (d_at (onnx_dims (parsed a) inp) 1) (d_at (onnx_dims (parsed a) inp) 2)
         (d_at (onnx_dims (parsed a) inp) 3) \<and>
     getDimensions (profile fr0) (onnx_name (parsed a) inp) kOPT =
       Dims4 bopt (d_at (onnx_dims (parsed a) inp) 1) (d_at (onnx_dims (parsed a) inp) 2)
         (d_at (onnx_dims (parsed a) inp) 3) \<and>
     getDimensions (profile fr0) (onnx_name (parsed a) inp) kMAX =
       Dims4 bmax (d_at (onnx_dims (parsed a) inp) 1) (d_at (onnx_dims (parsed a) inp) 2)
         (d_at (onnx_dims (parsed a) inp) 3) \<and>
     list_all2 (\<le>) (d (getDimensions (profile fr0) (onnx_name (parsed a) inp) kMIN))
                    (d (getDimensions (profile fr0) (onnx_name (parsed a) inp) kOPT)) \<and>
     list_all2 (\<le>) (d (getDimensions (profile fr0) (onnx_name (parsed a) inp) kOPT))
                    (d (getDimensions (profile fr0) (onnx_name (parsed a) inp) kMAX)) \<and>
     optimization_profiles (builderConfig fr0) =
       (if profile_isValid a (profile fr0) then [profile fr0] else []) \<and>
     (\<forall>fr. Engine_build a = Inr fr \<longrightarrow>
        profile fr = profile fr0 \<and>
        optimization_profiles (builderConfig fr) = optimization_profiles (builderConfig fr0))"
proof -
  obtain fr0 where 0: "configure_profile a = Inr fr0"
    using configure_profile_completes [of a] assms(1,4) by auto
  note p = configure_profile_profile [OF 0 assms(4)]
  have mn: "getDimensions (profile fr0) (onnx_name (parsed a) inp) kMIN =
       Dims4 bmin (d_at (onnx_dims (parsed a) inp) 1) (d_at (onnx_dims (parsed a) inp) 2)
         (d_at (onnx_dims (parsed a) inp) 3)"
    and op: "getDimensions (profile fr0) (onnx_name (parsed a) inp) kOPT =
       Dims4 bopt (d_at (onnx_dims (parsed a) inp) 1) (d_at (onnx_dims (parsed a) inp) 2)
         (d_at (onnx_dims (parsed a) inp) 3)"
    and mx: "getDimensions (profile fr0) (onnx_name (parsed a) inp) kMAX =
       Dims4 bmax (d_at (onnx_dims (parsed a) inp) 1) (d_at (onnx_dims (parsed a) inp) 2)
         (d_at (onnx_dims (parsed a) inp) 3)"
    by (simp_all add: p(1) getDimensions_def assms(1))
  have le1: "list_all2 (\<le>) (d (getDimensions (profile fr0) (onnx_name (parsed a) inp) kMIN))
                    (d (getDimensions (profile fr0) (onnx_name (parsed a) inp) kOPT))"
    and le2: "list_all2 (\<le>) (d (getDimensions (profile fr0) (onnx_name (parsed a) inp) kOPT))
                    (d (getDimensions (profile fr0) (onnx_name (parsed a) inp) kMAX))"
    unfolding mn op mx using assms(2,3) by (simp_all add: Dims4_def)
  have fin: "\<forall>fr. Engine_build a = Inr fr \<longrightarrow>
        profile fr = profile fr0 \<and>
        optimization_profiles (builderConfig fr) = optimization_profiles (builderConfig fr0)"
  proof (intro allI impI)
    fix fr assume b: "Engine_build a = Inr fr"
    then obtain fr0' fr1 where "configure_profile a = Inr fr0'"
      and 1: "configure_calibration a fr0' = Inr fr1"
      unfolding Engine_build_iff by blast
    with 0 have 1: "configure_calibration a fr0 = Inr fr1" by simp
    show "profile fr = profile fr0 \<and>
        optimization_profiles (builderConfig fr) = optimization_profiles (builderConfig fr0)"
      using Engine_build_config(1,2) [OF b 0 1] configure_calibration_Inr(4,6) [OF 1]
      by simp
  qed
  show ?thesis
    using 0 mn op mx le1 le2 p(2) fin by (intro exI [of _ fr0] conjI)
qed

text \<open>
  C4. The flag kFP16 is set in the builder configuration if and only if the
  precision string is FP16 or INT8, both when the configuration is created and in
  the configuration of every build that completes.
\<close>

theorem fp16_flag_iff_fp16_or_int8:
  "(kFP16 \<in> flags (create_builder_config a)) =
     (precision a = ''FP16'' \<or> precision a = ''INT8'') \<and>
   (\<forall>fr. Engine_build a = Inr fr \<longrightarrow>
      (kFP16 \<in> flags (builderConfig fr)) =
        (precision a = ''FP16'' \<or> precision a = ''INT8''))"
proof (intro conjI allI impI)
  show c: "(kFP16 \<in> flags (create_builder_config a)) =
     (precision a = ''FP16'' \<or> precision a = ''INT8'')"
    by (simp add: create_builder_config_def Let_def)
  fix fr assume b: "Engine_build a = Inr fr"
  then obtain fr0 fr1 where 0: "configure_profile a = Inr fr0"
    and 1: "configure_calibration a fr0 = Inr fr1"
    unfolding Engine_build_iff by blast
  have "(kFP16 \<in> flags (builderConfig fr)) = (kFP16 \<in> flags (create_builder_config a))"
    using Engine_build_config(1) [OF b 0 1] configure_calibration_Inr(7) [OF 1]
      configure_profile_Inr(6) [OF 0] by simp
  with c show "(kFP16 \<in> flags (builderConfig fr)) =
     (precision a = ''FP16'' \<or> precision a = ''INT8'')"
    by simp
qed

lemma example_args_input:
  "onnx_name (parsed example_args) 0 = ''input_1''"
  "d_at (onnx_dims (parsed example_args) 0) 1 = 3"
  "d_at (onnx_dims (parsed example_args) 0) (Suc 0) = 3"
  "d_at (onnx_dims (parsed example_args) 0) 2 = 512"
  "d_at (onnx_dims (parsed example_args) 0) 3 = 512"
  "profile_isValid example_args p = True"
  "calibration_images example_args = [''a.jpg'']"
  "model_name example_args = ''model''"
  "calibration_table example_args = ''table''"
  "score_thresh example_args = 5"
  "top_n example_args = 1000"
  by (simp_all add: example_args_def example_graph_def Dims4_def d_at_def)

theorem profile_shapes_follow_batch_triple_witness:
  "dynamic_batch_opts example_args = [1, 4, 8] \<and> (1 :: int) \<le> 4 \<and> (4 :: int) \<le> 8 \<and>
   (\<exists>fr0. configure_profile example_args = Inr fr0 \<and>
      getDimensions (profile fr0) ''input_1'' kMIN = Dims4 1 3 512 512 \<and>
      getDimensions (profile fr0) ''input_1'' kOPT = Dims4 4 3 512 512 \<and>
      getDimensions (profile fr0) ''input_1'' kMAX = Dims4 8 3 512 512 \<and>
      optimization_profiles (builderConfig fr0) = [profile fr0])"
proof -
  have p: "dynamic_batch_opts example_args = [1, 4, 8]" "(1 :: int) \<le> 4" "(4 :: int) \<le> 8"
    "onnx_inputs (parsed example_args) = 0 # []"
    by (simp_all add: example_args_fields)
  from profile_shapes_follow_batch_triple [OF p]
  obtain fr0 where 0: "configure_profile example_args = Inr fr0"
    and mn: "getDimensions (profile fr0) (onnx_name (parsed example_args) 0) kMIN =
       Dims4 1 (d_at (onnx_dims (parsed example_args) 0) 1)
         (d_at (onnx_dims (parsed example_args) 0) 2)
         (d_at (onnx_dims (parsed example_args) 0) 3)"
    and op: "getDimensions (profile fr0) (onnx_name (parsed example_args) 0) kOPT =
       Dims4 4 (d_at (onnx_dims (parsed example_args) 0) 1)
         (d_at (onnx_dims (parsed example_args) 0) 2)
         (d_at (onnx_dims (parsed example_args) 0) 3)"
    and mx: "getDimensions (profile fr0) (onnx_name (parsed example_args) 0) kMAX =
       Dims4 8 (d_at (onnx_dims (parsed example_args) 0) 1)
         (d_at (onnx_dims (parsed example_args) 0) 2)
         (d_at (onnx_dims (parsed example_args) 0) 3)"
    and at: "optimization_profiles (builderConfig fr0) =
       (if profile_isValid example_args (profile fr0) then [profile fr0] else [])"
    by (elim exE conjE)
  have mn': "getDimensions (profile fr0) ''input_1'' kMIN = Dims4 1 3 512 512"
    and op': "getDimensions (profile fr0) ''input_1'' kOPT = Dims4 4 3 512 512"
    and mx': "getDimensions (profile fr0) ''input_1'' kMAX = Dims4 8 3 512 512"
    using mn op mx by (simp_all add: example_args_input)
  have at': "optimization_profiles (builderConfig fr0) = [profile fr0]"
    using at by (simp add: example_args_input)
  show ?thesis
    using p(1,2,3) 0 mn' op' mx' at' by (intro conjI exI [of _ fr0])
qed

theorem fp16_flag_iff_fp16_or_int8_witness:
  "precision example_args = ''INT8'' \<and>
   kFP16 \<in> flags (create_builder_config example_args) \<and>
   (\<exists>fr. Engine_build example_args = Inr fr \<and> kFP16 \<in> flags (builderConfig fr))"
proof -
  obtain fr0 fr1 where
    b: "Engine_build example_args = Inr (build_engine (rewritten example_args fr1))"
    using Engine_build_completes [OF example_args_buildable] by blast
  have p: "precision example_args = ''INT8''"
    by (simp add: example_args_fields)
  have 1: "kFP16 \<in> flags (create_builder_config example_args)"
    using fp16_flag_iff_fp16_or_int8 [of example_args] p by simp
  have 2: "kFP16 \<in> flags (builderConfig (build_engine (rewritten example_args fr1)))"
    using fp16_flag_iff_fp16_or_int8 [of example_args] p b by simp
  show ?thesis
    using p 1 b 2
    by (intro conjI exI [of _ "build_engine (rewritten example_args fr1)"])
qed

text \<open>
  C5. After the profile stage, the calibration stage returns. For precision INT8 it
  sets kINT8, makes the build's profile (the one offered as optimization profile) the
  calibration profile, and installs a calibrator whose image stream has the batch size
  \<open>dynamic_batch_opts[1]\<close>, the input dimensions and the calibration images. For any
  other precision there is no kINT8 flag, no calibration profile and no calibrator.
  A build that completes keeps this configuration.
\<close>

theorem int8_calibrates_at_opt_batch:
  assumes "configure_profile a = Inr fr0"
  shows "\<exists>fr1. configure_calibration a fr0 = Inr fr1 \<and>
     (precision a = ''INT8'' \<longrightarrow>
        kINT8 \<in> flags (builderConfig fr1) \<and>
        calibration_profile (builderConfig fr1) = Some (profile fr1) \<and>
        optimization_profiles (builderConfig fr1) =
          (if profile_isValid a (profile fr1) then [profile fr1] else []) \<and>
        1 < length (dynamic_batch_opts a) \<and>
        calib fr1 =
          Some \<lparr>calib_stream = \<lparr>stream_batch = dynamic_batch_opts a ! 1,
                                 stream_dims = inputDims fr1,
                                 stream_images = calibration_images a\<rparr>,
                calib_model_name = model_name a,
                calib_table = calibration_table a\<rparr> \<and>
        int8_calibrator (builderConfig fr1) = calib fr1) \<and>
     (precision a \<noteq> ''INT8'' \<longrightarrow>
        kINT8 \<notin> flags (builderConfig fr1) \<and>
        calibration_profile (builderConfig fr1) = None \<and>
        calib fr1 = None \<and>
        int8_calibrator (builderConfig fr1) = None) \<and>
     (\<forall>fr. Engine_build a = Inr fr \<longrightarrow>
        builderConfig fr = builderConfig fr1 \<and> calib fr = calib fr1 \<and>
        profile fr = profile fr1 \<and> inputDims fr = inputDims fr1)"
proof -
  have len: "3 \<le> length (dynamic_batch_opts a)"
    using configure_profile_Inr(3) [OF assms] .
  obtain fr1 where 1: "configure_calibration a fr0 = Inr fr1"
    using configure_calibration_completes [OF len] by blast
  obtain inp rest where i: "onnx_inputs (parsed a) = inp # rest"
    using configure_profile_Inr(2) [OF assms] by (cases "onnx_inputs (parsed a)") auto
  note p = configure_profile_profile [OF assms i]
  note c = configure_profile_Inr [OF assms]
  have int8: "precision a = ''INT8'' \<longrightarrow>
        kINT8 \<in> flags (builderConfig fr1) \<and>
        calibration_profile (builderConfig fr1) = Some (profile fr1) \<and>
        optimization_profiles (builderConfig fr1) =
          (if profile_isValid a (profile fr1) then [profile fr1] else []) \<and>
        1 < length (dynamic_batch_opts a) \<and>
        calib fr1 =
          Some \<lparr>calib_stream = \<lparr>stream_batch = dynamic_batch_opts a ! 1,
                                 stream_dims = inputDims fr1,
                                 stream_images = calibration_images a\<rparr>,
                calib_model_name = model_name a,
                calib_table = calibration_table a\<rparr> \<and>
        int8_calibrator (builderConfig fr1) = calib fr1"
    using 1 len p(2)
    by (auto simp: configure_calibration_def Let_def split: if_splits)
  have other: "precision a \<noteq> ''INT8'' \<longrightarrow>
        kINT8 \<notin> flags (builderConfig fr1) \<and>
        calibration_profile (builderConfig fr1) = None \<and>
        calib fr1 = None \<and>
        int8_calibrator (builderConfig fr1) = None"
    using 1 c(5,6,7,8)
    by (auto simp: configure_calibration_def create_builder_config_def Let_def
        split: if_splits)
  have fin: "\<forall>fr. Engine_build a = Inr fr \<longrightarrow>
        builderConfig fr = builderConfig fr1 \<and> calib fr = calib fr1 \<and>
        profile fr = profile fr1 \<and> inputDims fr = inputDims fr1"
    using Engine_build_config(1,2,3,4) [OF _ assms 1] by blast
  show ?thesis
    using 1 int8 other fin by (intro exI [of _ fr1] conjI)
qed

theorem int8_calibrates_at_opt_batch_witness:
  "precision example_args = ''INT8'' \<and>
   dynamic_batch_opts example_args = [1, 4, 8] \<and>
   (\<exists>fr0 fr1. configure_profile example_args = Inr fr0 \<and>
      configure_calibration example_args fr0 = Inr fr1 \<and>
      kINT8 \<in> flags (builderConfig fr1) \<and>
      calibration_profile (builderConfig fr1) = Some (profile fr1) \<and>
      optimization_profiles (builderConfig fr1) = [profile fr1] \<and>
      int8_calibrator (builderConfig fr1) =
        Some \<lparr>calib_stream = \<lparr>stream_batch = 4,
                               stream_dims = Dims4 (- 1) 3 512 512,
                               stream_images = [''a.jpg'']\<rparr>,
              calib_model_name = ''model'', calib_table = ''table''\<rparr>)"
proof -
  obtain fr0 where 0: "configure_profile example_args = Inr fr0"
    using configure_profile_completes [of example_args]
    by (auto simp: example_args_fields)
  have i: "onnx_inputs (parsed example_args) = 0 # []"
    by (simp add: example_args_fields)
  have p: "precision example_args = ''INT8''"
    "dynamic_batch_opts example_args = [1, 4, 8]"
    by (simp_all add: example_args_fields)
  from int8_calibrates_at_opt_batch [OF 0] p(1)
  obtain fr1 where 1: "configure_calibration example_args fr0 = Inr fr1"
    and f: "kINT8 \<in> flags (builderConfig fr1)"
    and cp: "calibration_profile (builderConfig fr1) = Some (profile fr1)"
    and op: "optimization_profiles (builderConfig fr1) =
          (if profile_isValid example_args (profile fr1) then [profile fr1] else [])"
    and cal: "calib fr1 =
          Some \<lparr>calib_stream = \<lparr>stream_batch = dynamic_batch_opts example_args ! 1,
                                 stream_dims = inputDims fr1,
                                 stream_images = calibration_images example_args\<rparr>,
                calib_model_name = model_name example_args,
                calib_table = calibration_table example_args\<rparr>"
    and ic: "int8_calibrator (builderConfig fr1) = calib fr1"
    by (elim exE conjE) simp
  have d: "inputDims fr1 = Dims4 (- 1) 3 512 512"
    using configure_calibration_Inr(5) [OF 1] configure_profile_profile(3) [OF 0 i]
    by (simp add: example_args_def example_graph_def)
  have op': "optimization_profiles (builderConfig fr1) = [profile fr1]"
    using op by (simp add: example_args_input)
  have ic': "int8_calibrator (builderConfig fr1) =
        Some \<lparr>calib_stream = \<lparr>stream_batch = 4,
                               stream_dims = Dims4 (- 1) 3 512 512,
                               stream_images = [''a.jpg'']\<rparr>,
              calib_model_name = ''model'', calib_table = ''table''\<rparr>"
    unfolding ic cal d by (simp add: example_args_input p(2))
  show ?thesis
    using p 0 1 f cp op' ic' by (intro conjI exI [of _ fr0] exI [of _ fr1])
qed

lemma trunc_div_nonneg:
  assumes "0 \<le> a" and "0 < b"
  shows "trunc_div a b = a div b"
  using assms by (simp add: trunc_div_def)

text \<open>
  C6. In a build that completes, for every scale \<open>i < S\<close> the \<open>i\<close>-th layer added is a
  plugin layer on output \<open>i\<close> and output \<open>S + i\<close> of the parsed network. Its plugin is
  the rotated decode variant if \<open>rotated\<close> holds and the plain one otherwise, with the
  arguments \<open>score_thresh\<close>, \<open>top_n\<close>, \<open>anchors[i]\<close> and the quotient, truncated towards
  zero, of dimension 2 of input 0 by dimension 2 of output \<open>i\<close>; for a non-negative
  input height and a positive class-map height this is the quotient \<open>div\<close>.
\<close>

theorem decode_stage_pairs_and_scale:
  assumes "Engine_build a = Inr fr" and "i < nb_scales a"
  shows "net_layers (network fr) ! i =
       PluginV2Layer
         [ParsedTensor (onnx_outputs (parsed a) ! i),
          ParsedTensor (onnx_outputs (parsed a) ! (nb_scales a + i))]
         (if rotated a
          then DecodeRotatePlugin (score_thresh a) (top_n a) (anchors a ! i)
                 (trunc_div (input_height a) (class_height a i))
          else DecodePlugin (score_thresh a) (top_n a) (anchors a ! i)
                 (trunc_div (input_height a) (class_height a i))) \<and>
     i < length (anchors a) \<and>
     nb_scales a + i < length (onnx_outputs (parsed a)) \<and>
     class_height a i \<noteq> 0 \<and>
     (0 \<le> input_height a \<and> 0 < class_height a i \<longrightarrow>
        trunc_div (input_height a) (class_height a i) = input_height a div class_height a i)"
proof -
  obtain fr0 fr1 where g: "graph_ok a" and f: "fr = build_engine (rewritten a fr1)"
    using assms(1) unfolding Engine_build_iff by blast
  have l: "net_layers (network fr) ! i =
      PluginV2Layer [class_output a i, box_output a i] (decode_plugin a i)"
    using assms(2) by (simp add: f build_engine_fields rewritten_fields nth_append)
  have 1: "net_layers (network fr) ! i =
       PluginV2Layer
         [ParsedTensor (onnx_outputs (parsed a) ! i),
          ParsedTensor (onnx_outputs (parsed a) ! (nb_scales a + i))]
         (if rotated a
          then DecodeRotatePlugin (score_thresh a) (top_n a) (anchors a ! i)
                 (trunc_div (input_height a) (class_height a i))
          else DecodePlugin (score_thresh a) (top_n a) (anchors a ! i)
                 (trunc_div (input_height a) (class_height a i)))"
    unfolding l by (simp add: class_output_def box_output_def decode_plugin_def scale_factor_def)
  have 2: "i < length (anchors a)"
    using g assms(2) by (simp add: graph_ok_def)
  have 3: "nb_scales a + i < length (onnx_outputs (parsed a))"
    using assms(2) by (simp add: nb_scales_def)
  have 4: "class_height a i \<noteq> 0"
    using g assms(2) by (simp add: graph_ok_def scale_defined_def)
  have 5: "0 \<le> input_height a \<and> 0 < class_height a i \<longrightarrow>
        trunc_div (input_height a) (class_height a i) = input_height a div class_height a i"
    by (simp add: trunc_div_nonneg)
  show ?thesis
    using 1 2 3 4 5 by (intro conjI)
qed

theorem decode_stage_pairs_and_scale_witness:
  "(0 :: nat) < nb_scales example_args \<and>
   (\<exists>fr. Engine_build example_args = Inr fr \<and>
      net_layers (network fr) ! 0 =
        PluginV2Layer [ParsedTensor 1, ParsedTensor 3] (DecodePlugin 5 1000 [1, 2, 3, 4] 8) \<and>
      input_height example_args = 512 \<and> class_height example_args 0 = 64 \<and>
      trunc_div 512 64 = 8)"
proof -
  obtain fr0 fr1 where
    b: "Engine_build example_args = Inr (build_engine (rewritten example_args fr1))"
    using Engine_build_completes [OF example_args_buildable] by blast
  define fr where "fr = build_engine (rewritten example_args fr1)"
  have b': "Engine_build example_args = Inr fr"
    using b by (simp add: fr_def)
  have i: "0 < nb_scales example_args"
    by (simp add: example_args_fields)
  have l: "net_layers (network fr) ! 0 =
        PluginV2Layer [ParsedTensor 1, ParsedTensor 3] (DecodePlugin 5 1000 [1, 2, 3, 4] 8)"
    using decode_stage_pairs_and_scale [OF b' i]
    by (simp add: example_args_fields example_args_scales example_args_input trunc_div_def)
  have t: "trunc_div 512 64 = 8"
    by (simp add: trunc_div_def)
  show ?thesis
    using i b' l example_args_scales(1,2) t by (intro conjI exI [of _ fr])
qed

end
